theory Spec2Isabelle
  imports Complex_Main "HOL-Library.AList"
begin

section \<open>Configuration\<close>

text \<open>
  The entries of the \<^verbatim>\<open>CONFIG\<close> dictionary of \<^verbatim>\<open>support.py\<close> that the ticket
  logic reads. The colours, the token, the guild id and the bot status only decorate
  messages and are left out.
\<close>

record config =
  STAFF_ROLES :: "string list"
  TICKET_CATEGORY :: string
  LOG_CHANNEL :: string
  TICKET_CLOSE_CONFIRMATION :: bool
  ANONYMOUS_REPLIES :: bool
  AUTO_CLOSE_TIME :: int
  TICKET_LIMIT_PER_USER :: int
  WELCOME_MESSAGE_COOLDOWN :: int

definition CONFIG :: config where
  "CONFIG = \<lparr> STAFF_ROLES = [''Admin'', ''Moderator'', ''On-Duty Support''],
      TICKET_CATEGORY = ''MODMAIL'',
      LOG_CHANNEL = ''modmail-logs'',
      TICKET_CLOSE_CONFIRMATION = True,
      ANONYMOUS_REPLIES = False,
      AUTO_CLOSE_TIME = 48,
      TICKET_LIMIT_PER_USER = 1,
      WELCOME_MESSAGE_COOLDOWN = 300 \<rparr>"

section \<open>Strings and dates\<close>

text \<open>Python's \<^verbatim>\<open>str(n)\<close> for a non-negative integer: its decimal digits.\<close>

definition digit_char :: "nat \<Rightarrow> char" where
  "digit_char d = char_of (48 + d)"

fun str_nat :: "nat \<Rightarrow> string" where
  "str_nat n = (if n < 10 then [digit_char n] else str_nat (n div 10) @ [digit_char (n mod 10)])"

declare str_nat.simps [simp del]

text \<open>A number printed in at least \<open>w\<close> digits, zero-padded on the left (\<^verbatim>\<open>%02d\<close>).\<close>

definition zpad :: "nat \<Rightarrow> nat \<Rightarrow> string" where
  "zpad w n = replicate (w - length (str_nat n)) (CHR ''0'') @ str_nat n"

text \<open>
  A \<^verbatim>\<open>datetime\<close> object holds its civil fields. Every datetime of the program comes
  from \<^verbatim>\<open>discord.utils.utcnow()\<close> or from Discord and is aware with offset zero, so
  no field for the time zone is needed.
\<close>

record datetime =
  dt_year :: nat
  dt_month :: nat
  dt_day :: nat
  dt_hour :: nat
  dt_minute :: nat
  dt_second :: nat
  dt_microsecond :: nat

text \<open>\<^verbatim>\<open>strftime('%Y-%m-%d %H:%M:%S')\<close>, \<^verbatim>\<open>strftime('%Y%m%d-%H%M')\<close> and
  \<^verbatim>\<open>isoformat()\<close> of an aware UTC datetime.\<close>

definition strftime_seconds :: "datetime \<Rightarrow> string" where
  "strftime_seconds d =
     zpad 4 (dt_year d) @ ''-'' @ zpad 2 (dt_month d) @ ''-'' @ zpad 2 (dt_day d) @ '' '' @
     zpad 2 (dt_hour d) @ '':'' @ zpad 2 (dt_minute d) @ '':'' @ zpad 2 (dt_second d)"

definition strftime_minutes :: "datetime \<Rightarrow> string" where
  "strftime_minutes d =
     zpad 4 (dt_year d) @ zpad 2 (dt_month d) @ zpad 2 (dt_day d) @ ''-'' @
     zpad 2 (dt_hour d) @ zpad 2 (dt_minute d)"

definition isoformat :: "datetime \<Rightarrow> string" where
  "isoformat d =
     zpad 4 (dt_year d) @ ''-'' @ zpad 2 (dt_month d) @ ''-'' @ zpad 2 (dt_day d) @ ''T'' @
     zpad 2 (dt_hour d) @ '':'' @ zpad 2 (dt_minute d) @ '':'' @ zpad 2 (dt_second d) @
     (if dt_microsecond d = 0 then [] else ''.'' @ zpad 6 (dt_microsecond d)) @ ''+00:00''"

text \<open>
  Subtraction of datetimes as \<^verbatim>\<open>datetime.__sub__\<close> computes it: the difference of the
  proleptic Gregorian ordinals, of the seconds of the day and of the microseconds. The
  result is the timedelta, held as its total number of microseconds.
\<close>

definition is_leap :: "nat \<Rightarrow> bool" where
  "is_leap y = (y mod 4 = 0 \<and> (y mod 100 \<noteq> 0 \<or> y mod 400 = 0))"

definition days_before_year :: "nat \<Rightarrow> int" where
  "days_before_year year =
     (let y = int year - 1 in y * 365 + y div 4 - y div 100 + y div 400)"

definition days_before_month :: "nat \<Rightarrow> nat \<Rightarrow> int" where
  "days_before_month year month =
     int ([0, 0, 31, 59, 90, 120, 151, 181, 212, 243, 273, 304, 334] ! month) +
     (if month > 2 \<and> is_leap year then 1 else 0)"

definition toordinal :: "datetime \<Rightarrow> int" where
  "toordinal d = days_before_year (dt_year d) + days_before_month (dt_year d) (dt_month d)
     + int (dt_day d)"

definition day_seconds :: "datetime \<Rightarrow> int" where
  "day_seconds d = int (dt_second d) + int (dt_minute d) * 60 + int (dt_hour d) * 3600"

definition dt_sub :: "datetime \<Rightarrow> datetime \<Rightarrow> int" where
  "dt_sub a b = ((toordinal a - toordinal b) * 86400 + (day_seconds a - day_seconds b)) * 1000000
     + (int (dt_microsecond a) - int (dt_microsecond b))"

text \<open>
  \<^verbatim>\<open>timedelta.total_seconds()\<close> and \<^verbatim>\<open>datetime.timestamp()\<close> return floats. They are
  modelled by the exact rationals they approximate: a timedelta is a whole number of
  microseconds, and the comparisons of the program are against whole numbers of seconds
  or hours.
\<close>

definition total_seconds :: "int \<Rightarrow> rat" where
  "total_seconds micros = of_int micros / 1000000"

definition EPOCH :: datetime where
  "EPOCH = \<lparr> dt_year = 1970, dt_month = 1, dt_day = 1, dt_hour = 0, dt_minute = 0,
     dt_second = 0, dt_microsecond = 0 \<rparr>"

definition timestamp :: "datetime \<Rightarrow> rat" where
  "timestamp d = total_seconds (dt_sub d EPOCH)"

section \<open>Discord objects\<close>

record user =
  u_id :: nat
  u_name :: string
  u_bot :: bool
  u_roles :: "string list"

record channel =
  ch_id :: nat
  ch_name :: string

record attachment =
  a_filename :: string
  a_url :: string

record embed =
  e_description :: string
  e_fields :: "(string \<times> string) list"

record message =
  m_id :: nat
  m_author :: user
  m_content :: string
  m_embeds :: "embed list"
  m_attachments :: "attachment list"
  m_pinned :: bool
  m_created_at :: datetime
  m_reference :: bool
  m_is_dm :: bool
  m_channel_id :: nat

text \<open>The guild as the code looks at it: the names of its categories and its text
  channels.\<close>

record guild =
  g_categories :: "string list"
  g_text_channels :: "channel list"

section \<open>The ticket store\<close>

text \<open>One entry of a ticket's \<^verbatim>\<open>messages\<close> list. The two message ids are present only
  in the entries that \<^verbatim>\<open>forward_to_channel\<close> writes.\<close>

record log_message =
  lm_author_id :: nat
  lm_content :: string
  lm_timestamp :: string
  lm_attachments :: "string list"
  lm_channel_msg_id :: "nat option"
  lm_user_msg_id :: "nat option"

record ticket =
  t_channel :: channel
  t_category :: string
  t_created_at :: datetime
  t_last_activity :: datetime
  t_messages :: "log_message list"
  t_closed :: bool
  t_staff_typing :: bool
  t_user_typing :: bool

text \<open>One summary record of \<^verbatim>\<open>ticket_logs\<close>.\<close>

record closed_record =
  cr_channel_name :: string
  cr_category :: string
  cr_created_at :: string
  cr_closed_at :: string
  cr_closed_by :: string
  cr_message_count :: nat

record attachment_info =
  ai_user_id :: nat
  ai_channel_id :: nat
  ai_attachments :: "string list"

text \<open>
  The module's global dictionaries. \<^verbatim>\<open>active_tickets\<close> is iterated by the code, and a
  Python dictionary iterates in insertion order, so it is an association list of
  association lists: owner id, then channel id. The other dictionaries are only looked
  up and are maps.
\<close>

type_synonym tickets = "(nat \<times> (nat \<times> ticket) list) list"

record store =
  active_tickets :: tickets
  blacklisted_users :: "nat set"
  ticket_logs :: "string \<rightharpoonup> closed_record list"
  user_welcome_timestamps :: "nat \<rightharpoonup> rat"
  ticket_attachments :: "nat \<rightharpoonup> attachment_info"

text \<open>\<^verbatim>\<open>active_tickets.get(uid, {})\<close>, the dictionary of one owner, and its size.\<close>

definition user_tickets :: "tickets \<Rightarrow> nat \<Rightarrow> (nat \<times> ticket) list" where
  "user_tickets tks uid = (case map_of tks uid of None \<Rightarrow> [] | Some ts \<Rightarrow> ts)"

definition ticket_count :: "store \<Rightarrow> nat \<Rightarrow> nat" where
  "ticket_count s uid = length (user_tickets (active_tickets s) uid)"

text \<open>\<^verbatim>\<open>active_tickets[uid][cid]\<close>, when both keys are present.\<close>

definition lookup_ticket :: "tickets \<Rightarrow> nat \<Rightarrow> nat \<Rightarrow> ticket option" where
  "lookup_ticket tks uid cid = (case map_of tks uid of None \<Rightarrow> None | Some ts \<Rightarrow> map_of ts cid)"

text \<open>\<^verbatim>\<open>active_tickets[uid][cid] = t\<close>, after \<^verbatim>\<open>active_tickets[uid] = {}\<close> when the
  owner has no dictionary yet.\<close>

definition insert_ticket :: "nat \<Rightarrow> nat \<Rightarrow> ticket \<Rightarrow> tickets \<Rightarrow> tickets" where
  "insert_ticket uid cid t tks = AList.update uid (AList.update cid t (user_tickets tks uid)) tks"

text \<open>An assignment to fields of the ticket at \<^verbatim>\<open>active_tickets[uid][cid]\<close>; nothing
  happens when the ticket is not there.\<close>

definition modify_ticket :: "nat \<Rightarrow> nat \<Rightarrow> (ticket \<Rightarrow> ticket) \<Rightarrow> tickets \<Rightarrow> tickets" where
  "modify_ticket uid cid f tks =
     (case lookup_ticket tks uid cid of
        None \<Rightarrow> tks
      | Some t \<Rightarrow> AList.update uid (AList.update cid (f t) (user_tickets tks uid)) tks)"

text \<open>\<^verbatim>\<open>del active_tickets[uid][cid]\<close>, then \<^verbatim>\<open>del active_tickets[uid]\<close> when the
  owner's dictionary has become empty.\<close>

definition remove_ticket :: "nat \<Rightarrow> nat \<Rightarrow> tickets \<Rightarrow> tickets" where
  "remove_ticket uid cid tks =
     (let ts = AList.delete cid (user_tickets tks uid)
      in if ts = [] then AList.delete uid tks else AList.update uid ts tks)"

text \<open>\<^verbatim>\<open>ticket_logs[str(uid)].append(r)\<close>, after \<^verbatim>\<open>ticket_logs[str(uid)] = []\<close> when
  the key is new.\<close>

definition append_log :: "string \<Rightarrow> closed_record \<Rightarrow> (string \<rightharpoonup> closed_record list)
    \<Rightarrow> (string \<rightharpoonup> closed_record list)" where
  "append_log k r logs = logs(k \<mapsto> (case logs k of None \<Rightarrow> [] | Some rs \<Rightarrow> rs) @ [r])"


section \<open>The transport\<close>

text \<open>
  What the program sends. A payload keeps the data the code computes for it (who, which
  category, which text); colours, thumbnails, footers and the button views attached to
  an embed are left out.
\<close>

datatype emoji = CheckMark | ReplyArrow | Memo

datatype content =
    Text string
  | InitialEmbed string nat string
  | TicketCreatedEmbed string
  | LogEmbed string string string
  | TicketClosedEmbed nat
  | TicketClosedNotice string string
  | AutoClosedEmbed int
  | AutoClosedNotice int string string
  | WelcomeEmbed
  | AccessDeniedEmbed
  | SelectTicketEmbed "(string \<times> string \<times> string) list"
  | MessageEmbed string string "(string \<times> string) list" "string list"

text \<open>
  One call of the Discord library (or, for \<open>SaveData\<close>, of \<^verbatim>\<open>save_data\<close>, which
  writes a file). Every one of them can raise. \<^verbatim>\<open>asyncio.sleep\<close> and the calls of the
  logger are not recorded.
\<close>

datatype effect =
    CreateCategory string
  | CreateTextChannel string
  | ChannelSend nat content
  | PinMessage nat
  | UserSend nat content
  | ChannelArchive nat
  | ChannelDelete nat
  | ChannelHistory nat
  | FetchUser nat
  | Respond string
  | Followup string
  | AddReaction nat emoji
  | ReadAttachment string
  | SaveData
  | ProcessCommands nat

text \<open>
  The transport during one run of a handler: \<open>raises e\<close> is \<open>Some err\<close> when the call
  \<open>e\<close> raises an exception whose \<^verbatim>\<open>str\<close> is \<open>err\<close>; the other fields are what the
  calls return when they do not raise.
\<close>

record transport =
  raises :: "effect \<Rightarrow> string option"
  created_channel :: "string \<Rightarrow> channel"
  history :: "nat \<Rightarrow> message list"
  fetched_user :: "nat \<Rightarrow> user"
  sent_id :: "effect \<Rightarrow> nat"

text \<open>
  A straight-line sequence of calls inside a \<^verbatim>\<open>try\<close>: the calls are made in order up
  to and including the first one that raises. The result is the calls made and the
  exception, if any.
\<close>

fun attempt :: "(effect \<Rightarrow> string option) \<Rightarrow> effect list \<Rightarrow> effect list \<times> string option" where
  "attempt r [] = ([], None)"
| "attempt r (e # es) =
     (case r e of
        Some err \<Rightarrow> ([e], Some err)
      | None \<Rightarrow> (case attempt r es of (made, res) \<Rightarrow> (e # made, res)))"

section \<open>Logging an action\<close>

text \<open>The calls of \<^verbatim>\<open>log_action\<close>: the log channel is created when the guild has no
  text channel of that name, then the log embed is sent to it.\<close>

definition log_action :: "config \<Rightarrow> transport \<Rightarrow> guild \<Rightarrow> string \<Rightarrow> string \<Rightarrow> string \<Rightarrow> effect list" where
  "log_action cfg tr g action category details =
     (case find (\<lambda>c. ch_name c = LOG_CHANNEL cfg) (g_text_channels g) of
        Some c \<Rightarrow> [ChannelSend (ch_id c) (LogEmbed category action details)]
      | None \<Rightarrow>
          [CreateTextChannel (LOG_CHANNEL cfg),
           ChannelSend (ch_id (created_channel tr (LOG_CHANNEL cfg)))
             (LogEmbed category action details)])"

section \<open>Ticket creation\<close>

definition is_alnum :: "char \<Rightarrow> bool" where
  "is_alnum c = (let n = (of_char c :: nat) in
     (48 \<le> n \<and> n \<le> 57) \<or> (65 \<le> n \<and> n \<le> 90) \<or> (97 \<le> n \<and> n \<le> 122))"

definition lower_char :: "char \<Rightarrow> char" where
  "lower_char c = (let n = (of_char c :: nat) in if 65 \<le> n \<and> n \<le> 90 then char_of (n + 32) else c)"

definition channel_name_for :: "user \<Rightarrow> string \<Rightarrow> datetime \<Rightarrow> string" where
  "channel_name_for u category_name now =
     take 10 (filter is_alnum (u_name u)) @ ''-'' @ map lower_char category_name @ ''-'' @
     strftime_minutes now"

definition LIMIT_REACHED :: string where
  "LIMIT_REACHED = ''You've reached the maximum number of open tickets. Please close existing tickets before creating a new one.''"

definition BLACKLISTED :: string where
  "BLACKLISTED = ''You are currently blacklisted from creating tickets. Please contact an administrator if you believe this is an error.''"

definition CREATE_ERROR :: string where
  "CREATE_ERROR = ''An error occurred while creating your ticket. Please try again later.''"

definition created_message :: "string \<Rightarrow> string" where
  "created_message category_name =
     ''Your '' @ category_name @ '' ticket has been created. Our staff team will respond shortly.''"

definition new_ticket :: "channel \<Rightarrow> string \<Rightarrow> datetime \<Rightarrow> ticket" where
  "new_ticket ch category_name now =
     \<lparr> t_channel = ch, t_category = category_name, t_created_at = now, t_last_activity = now,
       t_messages = [], t_closed = False, t_staff_typing = False, t_user_typing = False \<rparr>"

text \<open>The calls of \<^verbatim>\<open>create_ticket\<close> before the ticket is written to
  \<^verbatim>\<open>active_tickets\<close>: the category is created when the guild has none of that name, then
  the channel is created.\<close>

definition setup_calls :: "config \<Rightarrow> user \<Rightarrow> string \<Rightarrow> datetime \<Rightarrow> guild \<Rightarrow> effect list" where
  "setup_calls cfg u category_name now g =
     (if TICKET_CATEGORY cfg \<in> set (g_categories g) then []
      else [CreateCategory (TICKET_CATEGORY cfg)]) @
     [CreateTextChannel (channel_name_for u category_name now)]"

text \<open>The calls of \<^verbatim>\<open>create_ticket\<close> after the ticket is written: the control message is
  sent to the new channel \<open>ch\<close> and pinned, the owner is told, the creation is logged.\<close>

definition opening_calls :: "config \<Rightarrow> transport \<Rightarrow> user \<Rightarrow> string \<Rightarrow> string \<Rightarrow> guild \<Rightarrow> channel
    \<Rightarrow> effect list" where
  "opening_calls cfg tr u category_name message_content g ch =
     [ChannelSend (ch_id ch) (InitialEmbed category_name (u_id u) message_content),
      PinMessage (ch_id ch),
      UserSend (u_id u) (TicketCreatedEmbed category_name)] @
     log_action cfg tr g
       (''Ticket created by '' @ u_name u @ '' ('' @ str_nat (u_id u) @ '')'')
       category_name message_content"

text \<open>
  \<^verbatim>\<open>create_ticket\<close>. The two checks come first, outside the \<^verbatim>\<open>try\<close>. Inside it, the
  category and the channel are created, the ticket is written to \<^verbatim>\<open>active_tickets\<close>,
  and then the control message is sent and pinned, the owner is told, and the creation
  is logged. The \<^verbatim>\<open>except\<close> clause returns the error text and does nothing else. The
  result is the text returned, the store, and the calls made. \<open>now\<close> stands for every
  reading of the clock during the run.
\<close>

definition create_ticket :: "config \<Rightarrow> transport \<Rightarrow> datetime \<Rightarrow> user \<Rightarrow> string \<Rightarrow> string \<Rightarrow> guild
    \<Rightarrow> store \<Rightarrow> string \<times> store \<times> effect list" where
  "create_ticket cfg tr now u category_name message_content g s =
     (if (case map_of (active_tickets s) (u_id u) of
            None \<Rightarrow> False
          | Some ts \<Rightarrow> int (length ts) \<ge> TICKET_LIMIT_PER_USER cfg)
      then (LIMIT_REACHED, s, [])
      else if u_id u \<in> blacklisted_users s
      then (BLACKLISTED, s, [])
      else
        (case attempt (raises tr) (setup_calls cfg u category_name now g) of
           (made1, Some err) \<Rightarrow> (CREATE_ERROR, s, made1)
         | (made1, None) \<Rightarrow>
            (let ch = created_channel tr (channel_name_for u category_name now);
                 s' = s\<lparr> active_tickets :=
                        insert_ticket (u_id u) (ch_id ch) (new_ticket ch category_name now)
                          (active_tickets s) \<rparr>
             in case attempt (raises tr)
                       (opening_calls cfg tr u category_name message_content g ch) of
                  (made2, Some err) \<Rightarrow> (CREATE_ERROR, s', made1 @ made2)
                | (made2, None) \<Rightarrow> (created_message category_name, s', made1 @ made2))))"

section \<open>Outcomes of a handler\<close>

text \<open>
  A model of a handler takes the store it finds, the transport of its run and one time
  \<open>now\<close>, which stands for every reading of \<^verbatim>\<open>discord.utils.utcnow()\<close> during the run,
  and returns how the run ended, the store it leaves and the calls it made, in order.

  A handler returns nothing; what matters is how its run ended: at the end of its
  \<^verbatim>\<open>try\<close> body (or early, by a plain \<^verbatim>\<open>return\<close>), at the end of its \<^verbatim>\<open>except\<close> clause
  after an exception was caught, or by an exception that left the handler.
\<close>

datatype outcome = Done | Caught string | Escaped string

text \<open>The outcome after a last call that is outside every \<^verbatim>\<open>try\<close>.\<close>

definition ending :: "string option \<Rightarrow> outcome" where
  "ending r = (case r of None \<Rightarrow> Done | Some err \<Rightarrow> Escaped err)"

section \<open>The Archive button\<close>

text \<open>
  \<^verbatim>\<open>TicketControls.archive_button\<close> of the ticket of owner \<open>u\<close> in channel \<open>ch\<close>. The
  acknowledgement is sent outside the \<^verbatim>\<open>try\<close>. Inside it the channel is edited, the
  ticket's \<^verbatim>\<open>closed\<close> entry is set (a \<^verbatim>\<open>KeyError\<close>, whose text is the missing key, when
  the ticket is no longer in \<^verbatim>\<open>active_tickets\<close>) and the data is saved.
\<close>

definition archive_button :: "transport \<Rightarrow> channel \<Rightarrow> user \<Rightarrow> store \<Rightarrow> outcome \<times> store \<times> effect list" where
  "archive_button tr ch u s =
     (let ack = Respond ''Archiving ticket...'';
          edit = ChannelArchive (ch_id ch)
      in case raises tr ack of
           Some err \<Rightarrow> (Escaped err, s, [ack])
         | None \<Rightarrow>
            (case
               (case raises tr edit of
                  Some err \<Rightarrow> (s, [edit], Some err)
                | None \<Rightarrow>
                   (case map_of (active_tickets s) (u_id u) of
                      None \<Rightarrow> (s, [edit], Some (str_nat (u_id u)))
                    | Some ts \<Rightarrow>
                       (case map_of ts (ch_id ch) of
                          None \<Rightarrow> (s, [edit], Some (str_nat (ch_id ch)))
                        | Some t \<Rightarrow>
                           (s\<lparr> active_tickets :=
                                modify_ticket (u_id u) (ch_id ch) (\<lambda>t. t\<lparr> t_closed := True \<rparr>)
                                  (active_tickets s) \<rparr>,
                            [edit, SaveData], raises tr SaveData))))
             of
               (s', made, None) \<Rightarrow> (Done, s', ack # made)
             | (s', made, Some err) \<Rightarrow>
                (let fu = Followup (''Error archiving channel: '' @ err)
                 in (case raises tr fu of None \<Rightarrow> Caught err | Some err' \<Rightarrow> Escaped err',
                     s', ack # made @ [fu]))))"

section \<open>The transcript\<close>

definition nl :: string where
  "nl = [CHR 0x0A]"

definition is_staff :: "config \<Rightarrow> user \<Rightarrow> bool" where
  "is_staff cfg u = (\<exists>r \<in> set (u_roles u). r \<in> set (STAFF_ROLES cfg))"

definition render_embed :: "embed \<Rightarrow> string" where
  "render_embed e =
     (if e_description e \<noteq> [] then e_description e @ nl else []) @
     concat (map (\<lambda>(name, val). name @ '': '' @ val @ nl) (e_fields e))"

definition render_message :: "config \<Rightarrow> message \<Rightarrow> string" where
  "render_message cfg m =
     (if u_bot (m_author m) \<and> length (m_embeds m) > 0 \<and> m_pinned m then []
      else
        ''['' @ strftime_seconds (m_created_at m) @ ''] '' @
        (if is_staff cfg (m_author m) then u_name (m_author m) @ '' (Staff)''
         else u_name (m_author m)) @ '':'' @ nl @
        (if m_content m \<noteq> [] then m_content m @ nl else []) @
        concat (map render_embed (m_embeds m)) @
        (if m_attachments m \<noteq> []
         then ''Attachments:'' @ nl @
              concat (map (\<lambda>a. ''- '' @ a_filename a @ '' ('' @ a_url a @ '')'' @ nl)
                (m_attachments m))
         else []) @
        nl)"

text \<open>
  \<^verbatim>\<open>create_transcript\<close>, given the messages that \<^verbatim>\<open>channel.history\<close> returned, oldest
  first. The third line of the header is the time of the call.
\<close>

definition create_transcript :: "config \<Rightarrow> datetime \<Rightarrow> channel \<Rightarrow> user \<Rightarrow> message list \<Rightarrow> string" where
  "create_transcript cfg now ch u msgs =
     ''Transcript for ticket: '' @ ch_name ch @ nl @
     ''User: '' @ u_name u @ '' (ID: '' @ str_nat (u_id u) @ '')'' @ nl @
     ''Created at: '' @ strftime_seconds now @ nl @
     replicate 50 (CHR ''-'') @ nl @ nl @
     concat (map (render_message cfg) msgs)"

section \<open>Closing a ticket\<close>

definition CLOSED_OK :: string where
  "CLOSED_OK = ''Ticket closed successfully. This channel will be deleted in 5 seconds.''"

definition transcript_filename :: "channel \<Rightarrow> string" where
  "transcript_filename ch = ''transcript-'' @ ch_name ch @ ''.txt''"

text \<open>The block under \<^verbatim>\<open># Update active_tickets\<close>: the summary record is appended to the
  owner's list in \<^verbatim>\<open>ticket_logs\<close> and the ticket leaves \<^verbatim>\<open>active_tickets\<close>.\<close>

definition archive_record :: "channel \<Rightarrow> ticket \<Rightarrow> datetime \<Rightarrow> string \<Rightarrow> closed_record" where
  "archive_record ch t closed_at closed_by =
     \<lparr> cr_channel_name = ch_name ch, cr_category = t_category t,
       cr_created_at = isoformat (t_created_at t), cr_closed_at = isoformat closed_at,
       cr_closed_by = closed_by, cr_message_count = length (t_messages t) \<rparr>"

definition retire_ticket :: "nat \<Rightarrow> nat \<Rightarrow> closed_record \<Rightarrow> store \<Rightarrow> store" where
  "retire_ticket uid cid r s =
     s\<lparr> ticket_logs := append_log (str_nat uid) r (ticket_logs s),
        active_tickets := remove_ticket uid cid (active_tickets s) \<rparr>"

text \<open>
  \<^verbatim>\<open>actually_close_ticket\<close>, pressed by \<open>closer\<close> for the ticket of owner \<open>u\<close> in channel
  \<open>ch\<close>. The notification of the owner has a \<^verbatim>\<open>try\<close> of its own and cannot fail the
  close. The store is updated only when the ticket is in \<^verbatim>\<open>active_tickets\<close>; the calls
  before and after that block are made in both cases.
\<close>

definition actually_close_ticket :: "config \<Rightarrow> transport \<Rightarrow> datetime \<Rightarrow> user \<Rightarrow> channel \<Rightarrow> user
    \<Rightarrow> guild \<Rightarrow> store \<Rightarrow> outcome \<times> store \<times> effect list" where
  "actually_close_ticket cfg tr now closer ch u g s =
     (let failed = (\<lambda>err s' made.
            let r = Respond (''Error closing ticket: '' @ err)
            in (case raises tr r of None \<Rightarrow> Caught err | Some err' \<Rightarrow> Escaped err',
                s', made @ [r]))
      in case attempt (raises tr)
                [ChannelHistory (ch_id ch), ChannelSend (ch_id ch) (TicketClosedEmbed (u_id closer))] of
           (made1, Some err) \<Rightarrow> failed err s made1
         | (made1, None) \<Rightarrow>
            (let transcript = create_transcript cfg now ch u (history tr (ch_id ch));
                 notice = UserSend (u_id u) (TicketClosedNotice transcript (transcript_filename ch));
                 (s', saved) =
                    (case lookup_ticket (active_tickets s) (u_id u) (ch_id ch) of
                       None \<Rightarrow> (s, [])
                     | Some t \<Rightarrow>
                        (retire_ticket (u_id u) (ch_id ch)
                           (archive_record ch t now (str_nat (u_id closer))) s,
                         [SaveData]));
                 rest = saved @
                    log_action cfg tr g
                      (''Ticket closed by '' @ u_name closer @ '' ('' @ str_nat (u_id closer) @ '')'')
                      ''Ticket Closure'' [] @
                    [Respond CLOSED_OK, ChannelDelete (ch_id ch)]
             in case attempt (raises tr) rest of
                  (made2, Some err) \<Rightarrow> failed err s' (made1 @ [notice] @ made2)
                | (made2, None) \<Rightarrow> (Done, s', made1 @ [notice] @ made2)))"

text \<open>\<^verbatim>\<open>close_ticket\<close>: with confirmation configured only the prompt is sent; the
  Confirm button of the prompt runs \<^verbatim>\<open>actually_close_ticket\<close>.\<close>

definition close_ticket :: "config \<Rightarrow> transport \<Rightarrow> datetime \<Rightarrow> user \<Rightarrow> channel \<Rightarrow> user
    \<Rightarrow> guild \<Rightarrow> store \<Rightarrow> outcome \<times> store \<times> effect list" where
  "close_ticket cfg tr now closer ch u g s =
     (if TICKET_CLOSE_CONFIRMATION cfg
      then (let p = Respond ''Are you sure you want to close this ticket?''
            in (ending (raises tr p), s, [p]))
      else actually_close_ticket cfg tr now closer ch u g s)"


section \<open>The welcome message\<close>

text \<open>
  \<^verbatim>\<open>send_welcome_message\<close>. Nothing is sent while the last welcome is less than the
  cooldown ago. The function has no \<^verbatim>\<open>try\<close>: a failing send leaves the timestamp as
  it was and the exception leaves the function.
\<close>

definition send_welcome_message :: "config \<Rightarrow> transport \<Rightarrow> datetime \<Rightarrow> user \<Rightarrow> store
    \<Rightarrow> outcome \<times> store \<times> effect list" where
  "send_welcome_message cfg tr now u s =
     (let current_time = timestamp now
      in if (case user_welcome_timestamps s (u_id u) of
               None \<Rightarrow> False
             | Some last_welcome \<Rightarrow>
                 current_time - last_welcome < of_int (WELCOME_MESSAGE_COOLDOWN cfg))
         then (Done, s, [])
         else
           (let send = UserSend (u_id u) WelcomeEmbed
            in case raises tr send of
                 Some err \<Rightarrow> (Escaped err, s, [send])
               | None \<Rightarrow>
                   (ending (raises tr SaveData),
                    s\<lparr> user_welcome_timestamps :=
                         (user_welcome_timestamps s)(u_id u \<mapsto> current_time) \<rparr>,
                    [send, SaveData])))"

section \<open>Automatic closing\<close>

text \<open>The test of the scan: the ticket is not flagged closed and has been inactive for
  at least \<^verbatim>\<open>AUTO_CLOSE_TIME\<close> hours.\<close>

definition hours_inactive :: "datetime \<Rightarrow> ticket \<Rightarrow> rat" where
  "hours_inactive current_time t =
     total_seconds (dt_sub current_time (t_last_activity t)) / 3600"

definition expired :: "config \<Rightarrow> datetime \<Rightarrow> ticket \<Rightarrow> bool" where
  "expired cfg current_time t =
     (\<not> t_closed t \<and> hours_inactive current_time t \<ge> of_int (AUTO_CLOSE_TIME cfg))"

definition to_close :: "config \<Rightarrow> datetime \<Rightarrow> tickets \<Rightarrow> (nat \<times> nat) list" where
  "to_close cfg current_time tks =
     concat (map (\<lambda>(uid, ts).
        map (\<lambda>(cid, t). (uid, cid)) (filter (\<lambda>(cid, t). expired cfg current_time t) ts)) tks)"

text \<open>
  The body of the second loop for one pair of \<^verbatim>\<open>to_close\<close>. Everything is inside one
  \<^verbatim>\<open>try\<close> whose \<^verbatim>\<open>except\<close> clause only logs: an exception ends the work on this
  ticket and the loop goes on. The notification of the owner has a \<^verbatim>\<open>try\<close> of its own.
\<close>

definition auto_close_one :: "config \<Rightarrow> transport \<Rightarrow> datetime \<Rightarrow> nat \<times> nat \<Rightarrow> store \<times> effect list
    \<Rightarrow> store \<times> effect list" where
  "auto_close_one cfg tr current_time p acc =
     (case (p, acc) of ((uid, cid), (s, made)) \<Rightarrow>
        (case lookup_ticket (active_tickets s) uid cid of
           None \<Rightarrow> (s, made)
         | Some t \<Rightarrow>
            (let ch = t_channel t
             in case attempt (raises tr)
                  [FetchUser uid,
                   ChannelSend (ch_id ch) (AutoClosedEmbed (AUTO_CLOSE_TIME cfg)),
                   ChannelHistory (ch_id ch)] of
                  (made1, Some err) \<Rightarrow> (s, made @ made1)
                | (made1, None) \<Rightarrow>
                   (let u = fetched_user tr uid;
                        transcript = create_transcript cfg current_time ch u (history tr (ch_id ch));
                        notice = UserSend (u_id u)
                          (AutoClosedNotice (AUTO_CLOSE_TIME cfg) transcript (transcript_filename ch));
                        s' = retire_ticket uid cid (archive_record ch t current_time ''auto-close'') s
                    in (s', made @ made1 @ [notice] @
                          fst (attempt (raises tr) [SaveData, ChannelDelete (ch_id ch)]))))))"

text \<open>One pass of the \<^verbatim>\<open>while True\<close> loop of \<^verbatim>\<open>auto_close_tickets\<close>, up to its sleep:
  the scan, then the closing of every pair found.\<close>

definition auto_close_pass :: "config \<Rightarrow> transport \<Rightarrow> datetime \<Rightarrow> store \<Rightarrow> store \<times> effect list" where
  "auto_close_pass cfg tr current_time s =
     foldl (\<lambda>acc p. auto_close_one cfg tr current_time p acc) (s, [])
       (to_close cfg current_time (active_tickets s))"

text \<open>\<^verbatim>\<open>auto_close_tickets\<close> never returns; its first passes, one per element of the
  list, each with the transport and the clock of its time.\<close>

fun auto_close_tickets :: "config \<Rightarrow> (transport \<times> datetime) list \<Rightarrow> store \<Rightarrow> store \<times> effect list" where
  "auto_close_tickets cfg [] s = (s, [])"
| "auto_close_tickets cfg ((tr, current_time) # passes) s =
     (case auto_close_pass cfg tr current_time s of
        (s', made) \<Rightarrow>
          (case auto_close_tickets cfg passes s' of (s'', made') \<Rightarrow> (s'', made @ made')))"

section \<open>Forwarding messages\<close>

text \<open>The entry that is appended to a ticket's \<^verbatim>\<open>messages\<close> for message \<open>m\<close>. The staff
  branch of \<^verbatim>\<open>on_message\<close> writes no message ids.\<close>

definition message_entry :: "datetime \<Rightarrow> message \<Rightarrow> nat option \<Rightarrow> nat option \<Rightarrow> log_message" where
  "message_entry now m channel_msg user_msg =
     \<lparr> lm_author_id = u_id (m_author m), lm_content = m_content m,
       lm_timestamp = isoformat now,
       lm_attachments = map a_url (m_attachments m),
       lm_channel_msg_id = channel_msg, lm_user_msg_id = user_msg \<rparr>"

text \<open>The error notices of the two forwarding directions, for an exception whose text is
  \<open>err\<close>.\<close>

definition forward_error :: "string \<Rightarrow> content" where
  "forward_error err = Text (''Error sending your message: '' @ err @ ''. Please try again later.'')"

definition relay_error :: "string \<Rightarrow> content" where
  "relay_error err = Text (''Error sending message to user: '' @ err)"

text \<open>The attachments of a message are read one by one, each in a \<^verbatim>\<open>try\<close> of its own:
  all reads are made, and the attachments whose read did not raise are forwarded.\<close>

definition read_attachments :: "transport \<Rightarrow> message \<Rightarrow> effect list" where
  "read_attachments tr m = map (\<lambda>a. ReadAttachment (a_url a)) (m_attachments m)"

definition message_embed :: "transport \<Rightarrow> string \<Rightarrow> message \<Rightarrow> content" where
  "message_embed tr author_name m =
     (let ok = filter (\<lambda>a. raises tr (ReadAttachment (a_url a)) = None) (m_attachments m)
      in MessageEmbed author_name
           (if m_content m \<noteq> [] then m_content m else ''*No message content*'')
           (map (\<lambda>a. (''Attachment'', ''['' @ a_filename a @ '']('' @ a_url a @ '')'')) ok)
           (map a_filename ok))"

text \<open>The search of \<^verbatim>\<open>forward_to_channel\<close>: the first ticket, in iteration order, whose
  key is the channel's id. The result is the owner's id.\<close>

definition find_ticket :: "nat \<Rightarrow> tickets \<Rightarrow> nat option" where
  "find_ticket cid tks =
     (case find (\<lambda>(uid, ts). map_of ts cid \<noteq> None) tks of
        None \<Rightarrow> None
      | Some (uid, ts) \<Rightarrow> Some uid)"

definition NOT_FOUND_NOTICE :: string where
  "NOT_FOUND_NOTICE = ''I couldn't find an active ticket to forward your message to. Please create a new ticket.''"

text \<open>
  \<^verbatim>\<open>forward_to_channel\<close>: a user's direct message \<open>m\<close> goes to the ticket channel \<open>ch\<close>.
  The activity time is written first; the entry of the message log is written after the
  send to the channel, because it holds the id of the message sent. Any exception ends
  in the \<^verbatim>\<open>except\<close> clause, which sends the error notice to the channel the message
  came from.
\<close>

definition forward_to_channel :: "config \<Rightarrow> transport \<Rightarrow> datetime \<Rightarrow> message \<Rightarrow> channel \<Rightarrow> store
    \<Rightarrow> outcome \<times> store \<times> effect list" where
  "forward_to_channel cfg tr now m ch s =
     (let failed = (\<lambda>err s' made.
            let n = ChannelSend (m_channel_id m) (forward_error err)
            in (case raises tr n of None \<Rightarrow> Caught err | Some err' \<Rightarrow> Escaped err',
                s', made @ [n]))
      in case find_ticket (ch_id ch) (active_tickets s) of
           Some uid \<Rightarrow>
            (let s1 = s\<lparr> active_tickets :=
                        modify_ticket uid (ch_id ch) (\<lambda>t. t\<lparr> t_last_activity := now \<rparr>)
                          (active_tickets s) \<rparr>;
                 reads = read_attachments tr m;
                 send = ChannelSend (ch_id ch) (message_embed tr (u_name (m_author m)) m)
             in case raises tr send of
                  Some err \<Rightarrow> failed err s1 (reads @ [send])
                | None \<Rightarrow>
                   (let ticket_msg = sent_id tr send;
                        entry = message_entry now m (Some ticket_msg) (Some (m_id m));
                        s2 = s1\<lparr> active_tickets :=
                               modify_ticket uid (ch_id ch)
                                 (\<lambda>t. t\<lparr> t_messages := t_messages t @ [entry] \<rparr>)
                                 (active_tickets s1) \<rparr>
                    in case attempt (raises tr)
                         [AddReaction ticket_msg CheckMark, AddReaction ticket_msg ReplyArrow,
                          AddReaction ticket_msg Memo, AddReaction (m_id m) CheckMark] of
                         (made, Some err) \<Rightarrow> failed err s2 (reads @ [send] @ made)
                       | (made, None) \<Rightarrow>
                          (Done,
                           (if m_attachments m \<noteq> []
                            then s2\<lparr> ticket_attachments := (ticket_attachments s2)(ticket_msg \<mapsto>
                                   \<lparr> ai_user_id = u_id (m_author m), ai_channel_id = ch_id ch,
                                     ai_attachments = map a_url (m_attachments m) \<rparr>) \<rparr>
                            else s2),
                           reads @ [send] @ made)))
         | None \<Rightarrow>
            (let n = ChannelSend (m_channel_id m) (Text NOT_FOUND_NOTICE)
             in case raises tr n of
                  Some err \<Rightarrow> failed err s [n]
                | None \<Rightarrow>
                   (case send_welcome_message cfg tr now (m_author m) s of
                      (Escaped err, s', made) \<Rightarrow> failed err s' (n # made)
                    | (r, s', made) \<Rightarrow> (Done, s', n # made))))"


section \<open>The message router\<close>

definition strftime_date :: "datetime \<Rightarrow> string" where
  "strftime_date d = zpad 4 (dt_year d) @ ''-'' @ zpad 2 (dt_month d) @ ''-'' @ zpad 2 (dt_day d)"

text \<open>The options of the selection prompt: one for each ticket of the owner that is not
  flagged closed.\<close>

definition select_options :: "(nat \<times> ticket) list \<Rightarrow> (string \<times> string \<times> string) list" where
  "select_options ts =
     map (\<lambda>(cid, t). (t_category t @ '' Ticket'',
                       ''Created '' @ strftime_date (t_created_at t), str_nat cid))
       (filter (\<lambda>(cid, t). \<not> t_closed t) ts)"

text \<open>
  The search of the staff branch: the owners are visited in order, the variable
  \<^verbatim>\<open>ticket_owner_id\<close> is assigned when the owner has a ticket under the channel's id that
  is not flagged closed, and the loop is left as soon as the variable is truthy, that
  is, holds an id other than 0.
\<close>

fun scan_open :: "nat \<Rightarrow> tickets \<Rightarrow> nat option \<Rightarrow> nat option" where
  "scan_open cid [] found = found"
| "scan_open cid ((uid, ts) # rest) found =
     (let found' = (case find (\<lambda>(k, t). k = cid \<and> \<not> t_closed t) ts of
                      None \<Rightarrow> found
                    | Some kt \<Rightarrow> Some uid)
      in if (case found' of None \<Rightarrow> False | Some i \<Rightarrow> i \<noteq> 0) then found'
         else scan_open cid rest found')"

text \<open>
  The staff branch once the ticket of owner \<open>owner\<close> is found: the activity time and the
  entry of the message log are written first, then the message is sent to the owner
  inside a \<^verbatim>\<open>try\<close>; its \<^verbatim>\<open>except\<close> clause sends the error notice to the ticket
  channel.
\<close>

definition relay_to_owner :: "config \<Rightarrow> transport \<Rightarrow> datetime \<Rightarrow> message \<Rightarrow> nat \<Rightarrow> store
    \<Rightarrow> outcome \<times> store \<times> effect list" where
  "relay_to_owner cfg tr now m owner s =
     (let entry = message_entry now m None None;
          s1 = s\<lparr> active_tickets :=
                 modify_ticket owner (m_channel_id m)
                   (\<lambda>t. t\<lparr> t_last_activity := now, t_messages := t_messages t @ [entry] \<rparr>)
                   (active_tickets s) \<rparr>;
          failed = (\<lambda>err made.
            let n = ChannelSend (m_channel_id m) (relay_error err)
            in (case raises tr n of None \<Rightarrow> Caught err | Some err' \<Rightarrow> Escaped err',
                s1, made @ [n]));
          author_name = (if ANONYMOUS_REPLIES cfg then ''Staff'' else u_name (m_author m));
          send = UserSend (u_id (fetched_user tr owner)) (message_embed tr author_name m)
      in case raises tr (FetchUser owner) of
           Some err \<Rightarrow> failed err [FetchUser owner]
         | None \<Rightarrow>
            (case attempt (raises tr) [send, AddReaction (m_id m) CheckMark] of
               (made, Some err) \<Rightarrow> failed err (FetchUser owner # read_attachments tr m @ made)
             | (made, None) \<Rightarrow> (Done, s1, FetchUser owner # read_attachments tr m @ made)))"

text \<open>The last statement of \<^verbatim>\<open>on_message\<close>, \<^verbatim>\<open>await bot.process_commands(message)\<close>,
  reached unless an exception has left the handler. The commands themselves are not
  part of this model.\<close>

definition then_commands :: "transport \<Rightarrow> message \<Rightarrow> outcome \<times> store \<times> effect list
    \<Rightarrow> outcome \<times> store \<times> effect list" where
  "then_commands tr m res =
     (case res of
        (Escaped err, s, made) \<Rightarrow> (Escaped err, s, made)
      | (r, s, made) \<Rightarrow>
          (ending (raises tr (ProcessCommands (m_id m))), s, made @ [ProcessCommands (m_id m)]))"

text \<open>
  \<^verbatim>\<open>on_message\<close>; \<open>bot_id\<close> is \<^verbatim>\<open>bot.user.id\<close> and the command prefix is \<^verbatim>\<open>!\<close>.
\<close>

definition on_message :: "config \<Rightarrow> transport \<Rightarrow> datetime \<Rightarrow> nat \<Rightarrow> message \<Rightarrow> store
    \<Rightarrow> outcome \<times> store \<times> effect list" where
  "on_message cfg tr now bot_id m s =
     (let author = m_author m in
      if u_bot author \<and> u_id author \<noteq> bot_id then (Done, s, [])
      else if \<not> u_bot author \<and> take 1 (m_content m) = ''!''
      then (ending (raises tr (ProcessCommands (m_id m))), s, [ProcessCommands (m_id m)])
      else if m_is_dm m \<and> \<not> u_bot author
      then
        (if u_id author \<in> blacklisted_users s
         then (let n = ChannelSend (m_channel_id m) AccessDeniedEmbed
               in (ending (raises tr n), s, [n]))
         else if map_of (active_tickets s) (u_id author) = None
         then send_welcome_message cfg tr now author s
         else
          (case map_of (active_tickets s) (u_id author) of
             Some active_user_tickets \<Rightarrow>
               (if length active_user_tickets > 1 \<and> \<not> m_reference m
                   \<and> select_options active_user_tickets \<noteq> []
                then (let n = ChannelSend (m_channel_id m)
                                (SelectTicketEmbed (select_options active_user_tickets))
                      in (ending (raises tr n), s, [n]))
                else
                  then_commands tr m
                    (case find (\<lambda>(cid, t). \<not> t_closed t) active_user_tickets of
                       Some (cid, t) \<Rightarrow> forward_to_channel cfg tr now m (t_channel t) s
                     | None \<Rightarrow> (Done, s, [])))
           | None \<Rightarrow> then_commands tr m (send_welcome_message cfg tr now author s)))
      else if \<not> m_is_dm m \<and> \<not> u_bot author
      then
        then_commands tr m
          (case scan_open (m_channel_id m) (active_tickets s) None of
             Some owner \<Rightarrow>
               (if owner \<noteq> 0 then relay_to_owner cfg tr now m owner s else (Done, s, []))
           | None \<Rightarrow> (Done, s, []))
      else then_commands tr m (Done, s, []))"

section \<open>Runs that give way to other runs\<close>

text \<open>
  Every handler is a coroutine: it runs alone from one \<^verbatim>\<open>await\<close> to the next, and at an
  \<^verbatim>\<open>await\<close> the event loop can run another handler. Nothing in the program locks the
  dictionaries. The definitions above are the runs during which no other handler
  touches the store. Two handlers read the store, await, and write it afterwards; for
  them the runs that find another store at the write than at the read are given here.

  \<^verbatim>\<open>create_ticket\<close> reads \<^verbatim>\<open>active_tickets\<close> and \<^verbatim>\<open>blacklisted_users\<close> in its two checks
  (lines 89 to 95) and writes the ticket at lines 129 to 141. The awaits of
  \<^verbatim>\<open>create_category\<close> (line 105) and \<^verbatim>\<open>create_text_channel\<close> (line 126) lie between.
\<close>

definition create_ticket_checks :: "config \<Rightarrow> user \<Rightarrow> store \<Rightarrow> string option" where
  "create_ticket_checks cfg u s =
     (if (case map_of (active_tickets s) (u_id u) of
            None \<Rightarrow> False
          | Some ts \<Rightarrow> int (length ts) \<ge> TICKET_LIMIT_PER_USER cfg)
      then Some LIMIT_REACHED
      else if u_id u \<in> blacklisted_users s
      then Some BLACKLISTED
      else None)"

definition create_ticket_write :: "user \<Rightarrow> channel \<Rightarrow> string \<Rightarrow> datetime \<Rightarrow> store \<Rightarrow> store" where
  "create_ticket_write u ch category_name now s =
     s\<lparr> active_tickets :=
          insert_ticket (u_id u) (ch_id ch) (new_ticket ch category_name now) (active_tickets s) \<rparr>"

text \<open>
  A run of \<^verbatim>\<open>create_ticket\<close> whose checks saw the store \<open>s_check\<close> and whose write, when
  the channel has been created, finds the store \<open>s_write\<close>, as the handlers that ran
  during its awaits left it. A run that ends at a check has not awaited.
\<close>

definition create_ticket_suspended :: "config \<Rightarrow> transport \<Rightarrow> datetime \<Rightarrow> user \<Rightarrow> string \<Rightarrow> string
    \<Rightarrow> guild \<Rightarrow> store \<Rightarrow> store \<Rightarrow> string \<times> store \<times> effect list" where
  "create_ticket_suspended cfg tr now u category_name message_content g s_check s_write =
     (case create_ticket_checks cfg u s_check of
        Some rejection \<Rightarrow> (rejection, s_check, [])
      | None \<Rightarrow>
         (case attempt (raises tr) (setup_calls cfg u category_name now g) of
            (made1, Some err) \<Rightarrow> (CREATE_ERROR, s_write, made1)
          | (made1, None) \<Rightarrow>
             (let ch = created_channel tr (channel_name_for u category_name now);
                  s' = create_ticket_write u ch category_name now s_write
              in case attempt (raises tr)
                        (opening_calls cfg tr u category_name message_content g ch) of
                   (made2, Some err) \<Rightarrow> (CREATE_ERROR, s', made1 @ made2)
                 | (made2, None) \<Rightarrow> (created_message category_name, s', made1 @ made2))))"

text \<open>
  \<^verbatim>\<open>send_welcome_message\<close> reads the clock and tests the user's timestamp (lines 479 to
  486), awaits \<^verbatim>\<open>user.send\<close> (line 504), and writes the time it read at its start into
  \<^verbatim>\<open>user_welcome_timestamps\<close> at line 507. This is a run whose test saw the store
  \<open>s_check\<close> and whose write, when the send has returned, finds the store \<open>s_write\<close>.
\<close>

definition send_welcome_message_suspended :: "config \<Rightarrow> transport \<Rightarrow> datetime \<Rightarrow> user \<Rightarrow> store
    \<Rightarrow> store \<Rightarrow> outcome \<times> store \<times> effect list" where
  "send_welcome_message_suspended cfg tr now u s_check s_write =
     (let current_time = timestamp now
      in if (case user_welcome_timestamps s_check (u_id u) of
               None \<Rightarrow> False
             | Some last_welcome \<Rightarrow>
                 current_time - last_welcome < of_int (WELCOME_MESSAGE_COOLDOWN cfg))
         then (Done, s_check, [])
         else
           (let send = UserSend (u_id u) WelcomeEmbed
            in case raises tr send of
                 Some err \<Rightarrow> (Escaped err, s_write, [send])
               | None \<Rightarrow>
                   (ending (raises tr SaveData),
                    s_write\<lparr> user_welcome_timestamps :=
                         (user_welcome_timestamps s_write)(u_id u \<mapsto> current_time) \<rparr>,
                    [send, SaveData])))"

section \<open>Well-formed dictionaries and the closed log\<close>

text \<open>The dictionaries are well formed: no key occurs twice.\<close>

definition wf_tickets :: "tickets \<Rightarrow> bool" where
  "wf_tickets tks = (distinct (map fst tks) \<and> (\<forall>(uid, ts) \<in> set tks. distinct (map fst ts)))"

text \<open>\<^verbatim>\<open>ticket_logs.get(str(uid), [])\<close>: the summary records of one owner.\<close>

definition closed_log :: "store \<Rightarrow> nat \<Rightarrow> closed_record list" where
  "closed_log s uid = (case ticket_logs s (str_nat uid) of None \<Rightarrow> [] | Some rs \<Rightarrow> rs)"

section \<open>Example data\<close>

text \<open>A transport on which no call raises, a time, a user and a guild that has the
  category and the log channel, the empty store, and the store after the user has
  opened a Support ticket.\<close>

definition tr0 :: transport where
  "tr0 = \<lparr> raises = (\<lambda>e. None),
           created_channel = (\<lambda>name. \<lparr> ch_id = 7, ch_name = name \<rparr>),
           history = (\<lambda>cid. []),
           fetched_user = (\<lambda>uid. \<lparr> u_id = uid, u_name = ''alice'', u_bot = False, u_roles = [] \<rparr>),
           sent_id = (\<lambda>e. 100) \<rparr>"

definition now0 :: datetime where
  "now0 = \<lparr> dt_year = 2025, dt_month = 3, dt_day = 1, dt_hour = 12, dt_minute = 0,
     dt_second = 0, dt_microsecond = 0 \<rparr>"

definition alice :: user where
  "alice = \<lparr> u_id = 42, u_name = ''alice'', u_bot = False, u_roles = [] \<rparr>"

definition g0 :: guild where
  "g0 = \<lparr> g_categories = [''MODMAIL''],
          g_text_channels = [\<lparr> ch_id = 1, ch_name = ''modmail-logs'' \<rparr>] \<rparr>"

definition s0 :: store where
  "s0 = \<lparr> active_tickets = [], blacklisted_users = {}, ticket_logs = Map.empty,
          user_welcome_timestamps = Map.empty, ticket_attachments = Map.empty \<rparr>"

definition s1 :: store where
  "s1 = fst (snd (create_ticket CONFIG tr0 now0 alice ''Support'' ''Support ticket requested'' g0 s0))"

text \<open>The same two stores with the user on the blacklist.\<close>

definition s0_banned :: store where
  "s0_banned = s0\<lparr> blacklisted_users := {42} \<rparr>"

definition s1_banned :: store where
  "s1_banned = s1\<lparr> blacklisted_users := {42} \<rparr>"

text \<open>A transport on which the confirmation to the owner raises (the owner accepts no
  direct messages), and the store that \<^verbatim>\<open>create_ticket\<close> leaves on it.\<close>

definition tr_dm_closed :: transport where
  "tr_dm_closed = tr0\<lparr> raises := (\<lambda>e.
     if e = UserSend 42 (TicketCreatedEmbed ''Support'')
     then Some ''403 Forbidden (error code: 50007): Cannot send messages to this user''
     else None) \<rparr>"

definition s_half :: store where
  "s_half = fst (snd (create_ticket CONFIG tr_dm_closed now0 alice ''Support''
     ''Support ticket requested'' g0 s0))"

text \<open>A staff member, the channel of the user's ticket, two later times, a transport on
  which the deletion of that channel raises, and the stores after the ticket was closed
  on that transport and after it was archived.\<close>

definition bob :: user where
  "bob = \<lparr> u_id = 99, u_name = ''bob'', u_bot = False, u_roles = [''Moderator''] \<rparr>"

definition ch7 :: channel where
  "ch7 = \<lparr> ch_id = 7, ch_name = channel_name_for alice ''Support'' now0 \<rparr>"

definition now1 :: datetime where
  "now1 = now0\<lparr> dt_hour := 13 \<rparr>"

definition now2 :: datetime where
  "now2 = now0\<lparr> dt_hour := 13, dt_second := 1 \<rparr>"

definition tr_no_delete :: transport where
  "tr_no_delete = tr0\<lparr> raises := (\<lambda>e.
     if e = ChannelDelete 7 then Some ''403 Forbidden (error code: 50013): Missing Permissions''
     else None) \<rparr>"

definition s_closed :: store where
  "s_closed = fst (snd (actually_close_ticket CONFIG tr_no_delete now1 bob ch7 alice g0 s1))"

definition s_archived :: store where
  "s_archived = fst (snd (archive_button tr0 ch7 alice s1))"

text \<open>The store after the user was welcomed at \<open>now0\<close>.\<close>

definition s_welcomed :: store where
  "s_welcomed = fst (snd (send_welcome_message CONFIG tr0 now0 alice s0))"

text \<open>A store in which the user has two tickets, the first one archived; the channel of
  the second; a direct message of the user that is a reply; and a transport on which
  the send to that channel raises.\<close>

definition ch8 :: channel where
  "ch8 = \<lparr> ch_id = 8, ch_name = channel_name_for alice ''Billing'' now0 \<rparr>"

definition s_two :: store where
  "s_two = s0\<lparr> active_tickets :=
     [(42, [(7, (new_ticket ch7 ''Support'' now0)\<lparr> t_closed := True \<rparr>),
            (8, new_ticket ch8 ''Billing'' now0)])] \<rparr>"

definition m_reply :: message where
  "m_reply = \<lparr> m_id = 555, m_author = alice, m_content = ''hello'', m_embeds = [],
     m_attachments = [], m_pinned = False, m_created_at = now1, m_reference = True,
     m_is_dm = True, m_channel_id = 4242 \<rparr>"

definition tr_send_fails :: transport where
  "tr_send_fails = tr0\<lparr> raises := (\<lambda>e.
     if e = ChannelSend 8 (MessageEmbed ''alice'' ''hello'' [] [])
     then Some ''503 Service Unavailable'' else None) \<rparr>"

text \<open>A message of the staff member in the channel of the second ticket, and a transport
  on which the direct message that relays it to the owner raises.\<close>

definition m_staff :: message where
  "m_staff = \<lparr> m_id = 777, m_author = bob, m_content = ''On it'', m_embeds = [],
     m_attachments = [], m_pinned = False, m_created_at = now1, m_reference = False,
     m_is_dm = False, m_channel_id = 8 \<rparr>"

definition tr_relay_fails :: transport where
  "tr_relay_fails = tr0\<lparr> raises := (\<lambda>e.
     if e = UserSend 42 (MessageEmbed ''bob'' ''On it'' [] [])
     then Some ''403 Forbidden (error code: 50007): Cannot send messages to this user''
     else None) \<rparr>"

text \<open>A store with the tickets of two owners, one last active at \<open>now0\<close> and one an hour
  later, and the time 48 hours after \<open>now0\<close>.\<close>

definition ch9 :: channel where
  "ch9 = \<lparr> ch_id = 9, ch_name = ''carol-support-20250301-1300'' \<rparr>"

definition s_sweep :: store where
  "s_sweep = s0\<lparr> active_tickets :=
     [(42, [(7, new_ticket ch7 ''Support'' now0)]),
      (43, [(9, new_ticket ch9 ''Support'' now1)])] \<rparr>"

definition now_48h :: datetime where
  "now_48h = now0\<lparr> dt_day := 3 \<rparr>"

text \<open>A transport on which the notice to the channel of the first ticket raises: the
  channel was deleted by hand.\<close>

definition tr_channel_gone :: transport where
  "tr_channel_gone = tr0\<lparr> raises := (\<lambda>e.
     if e = ChannelSend 7 (AutoClosedEmbed 48)
     then Some ''404 Not Found (error code: 10003): Unknown Channel'' else None) \<rparr>"

text \<open>A transport like \<open>tr0\<close> on which the channel created has another id, and the time one
  second after \<open>now0\<close>.\<close>

definition tr8 :: transport where
  "tr8 = tr0\<lparr> created_channel := (\<lambda>name. \<lparr> ch_id = 8, ch_name = name \<rparr>) \<rparr>"

definition now_1s :: datetime where
  "now_1s = now0\<lparr> dt_second := 1 \<rparr>"

section \<open>Properties of the store\<close>

lemmas date_defs = total_seconds_def dt_sub_def toordinal_def days_before_year_def
  days_before_month_def is_leap_def day_seconds_def timestamp_def EPOCH_def

lemma user_tickets_update:
  "user_tickets (AList.update uid ts tks) uid' = (if uid' = uid then ts else user_tickets tks uid')"
  by (simp add: user_tickets_def update_conv')

lemma user_tickets_delete:
  "user_tickets (AList.delete uid tks) uid' = (if uid' = uid then [] else user_tickets tks uid')"
  by (simp add: user_tickets_def delete_conv')

lemma length_alist_update:
  "length (AList.update k v al) = (if k \<in> fst ` set al then length al else Suc (length al))"
  by (induction al) auto

lemma user_tickets_insert:
  "user_tickets (insert_ticket uid cid t tks) uid' =
     (if uid' = uid then AList.update cid t (user_tickets tks uid) else user_tickets tks uid')"
  by (simp add: insert_ticket_def user_tickets_update)

lemma user_tickets_remove:
  "user_tickets (remove_ticket uid cid tks) uid' =
     (if uid' = uid then AList.delete cid (user_tickets tks uid) else user_tickets tks uid')"
  by (simp add: remove_ticket_def Let_def user_tickets_update user_tickets_delete)

lemma lookup_ticket_user_tickets:
  "lookup_ticket tks uid cid = map_of (user_tickets tks uid) cid"
  by (simp add: lookup_ticket_def user_tickets_def split: option.splits)

lemma user_tickets_modify:
  "user_tickets (modify_ticket uid cid f tks) uid' =
     (if uid' = uid then
        (case map_of (user_tickets tks uid) cid of None \<Rightarrow> user_tickets tks uid
         | Some t \<Rightarrow> AList.update cid (f t) (user_tickets tks uid))
      else user_tickets tks uid')"
  by (simp add: modify_ticket_def lookup_ticket_user_tickets user_tickets_update split: option.splits)

lemma length_user_tickets_modify:
  "length (user_tickets (modify_ticket uid cid f tks) uid') = length (user_tickets tks uid')"
proof (cases "map_of (user_tickets tks uid) cid")
  case None
  then show ?thesis by (simp add: user_tickets_modify)
next
  case (Some t)
  then have "cid \<in> fst ` set (user_tickets tks uid)"
    by (metis fst_conv image_eqI map_of_SomeD)
  with Some show ?thesis by (simp add: user_tickets_modify length_alist_update)
qed

lemma create_ticket_rejects:
  assumes pos: "0 < TICKET_LIMIT_PER_USER cfg"
  shows "fst (create_ticket cfg tr now u c msg g s) = LIMIT_REACHED
     \<longleftrightarrow> int (ticket_count s (u_id u)) \<ge> TICKET_LIMIT_PER_USER cfg"
proof -
  have a: "created_message c \<noteq> LIMIT_REACHED" "CREATE_ERROR \<noteq> LIMIT_REACHED"
    "BLACKLISTED \<noteq> LIMIT_REACHED"
    by (simp_all add: LIMIT_REACHED_def created_message_def CREATE_ERROR_def BLACKLISTED_def)
  have b: "(case map_of (active_tickets s) (u_id u) of None \<Rightarrow> False
              | Some ts \<Rightarrow> int (length ts) \<ge> TICKET_LIMIT_PER_USER cfg)
     \<longleftrightarrow> int (ticket_count s (u_id u)) \<ge> TICKET_LIMIT_PER_USER cfg"
    using pos by (auto simp: ticket_count_def user_tickets_def split: option.splits)
  show ?thesis
    unfolding b [symmetric]
    by (auto simp: create_ticket_def Let_def a split: option.splits prod.splits)
qed

lemma s1_tickets: "active_tickets s1 = [(42, [(7, new_ticket \<lparr> ch_id = 7, ch_name = channel_name_for alice ''Support'' now0 \<rparr> ''Support'' now0)])]"
  by (simp add: s1_def create_ticket_def setup_calls_def opening_calls_def CONFIG_def s0_def
      alice_def tr0_def g0_def Let_def log_action_def insert_ticket_def user_tickets_def)

section \<open>Properties of ticket creation\<close>

lemma create_ticket_blacklisted:
  assumes pos: "0 < TICKET_LIMIT_PER_USER cfg"
  shows "fst (create_ticket cfg tr now u c msg g s) = BLACKLISTED
     \<longleftrightarrow> u_id u \<in> blacklisted_users s \<and> int (ticket_count s (u_id u)) < TICKET_LIMIT_PER_USER cfg"
proof -
  have a: "created_message c \<noteq> BLACKLISTED" "CREATE_ERROR \<noteq> BLACKLISTED"
    "LIMIT_REACHED \<noteq> BLACKLISTED"
    by (simp_all add: LIMIT_REACHED_def created_message_def CREATE_ERROR_def BLACKLISTED_def)
  have b: "(case map_of (active_tickets s) (u_id u) of None \<Rightarrow> False
              | Some ts \<Rightarrow> int (length ts) \<ge> TICKET_LIMIT_PER_USER cfg)
     \<longleftrightarrow> \<not> int (ticket_count s (u_id u)) < TICKET_LIMIT_PER_USER cfg"
    using pos by (auto simp: ticket_count_def user_tickets_def split: option.splits)
  show ?thesis
    unfolding create_ticket_def b
    by (simp add: a Let_def split: option.split prod.split)
qed

lemma create_ticket_at_limit:
  assumes "0 < TICKET_LIMIT_PER_USER cfg"
    and "TICKET_LIMIT_PER_USER cfg \<le> int (ticket_count s (u_id u))"
  shows "create_ticket cfg tr now u c msg g s = (LIMIT_REACHED, s, [])"
proof -
  have "(case map_of (active_tickets s) (u_id u) of None \<Rightarrow> False
              | Some ts \<Rightarrow> int (length ts) \<ge> TICKET_LIMIT_PER_USER cfg)"
    using assms by (auto simp: ticket_count_def user_tickets_def split: option.splits)
  then show ?thesis by (simp add: create_ticket_def)
qed

text \<open>
  Claim C9. With a positive limit, a user who is on the blacklist and whose number of
  tickets has reached the limit gets the limit rejection, and the run changes nothing
  and makes no call; \<^verbatim>\<open>create_ticket\<close> returns the blacklist rejection exactly to the
  users on the blacklist whose number of tickets is below the limit.
\<close>

theorem limit_check_precedes_blacklist:
  assumes "0 < TICKET_LIMIT_PER_USER cfg"
  shows "(u_id u \<in> blacklisted_users s \<and> TICKET_LIMIT_PER_USER cfg \<le> int (ticket_count s (u_id u))
           \<longrightarrow> create_ticket cfg tr now u c msg g s = (LIMIT_REACHED, s, [])) \<and>
         (fst (create_ticket cfg tr now u c msg g s') = BLACKLISTED
           \<longleftrightarrow> u_id u \<in> blacklisted_users s' \<and>
               int (ticket_count s' (u_id u)) < TICKET_LIMIT_PER_USER cfg)"
  using create_ticket_at_limit [OF assms] create_ticket_blacklisted [OF assms] by blast

lemma s1_banned_count: "ticket_count s1_banned 42 = 1"
  by (simp add: ticket_count_def s1_banned_def s1_tickets user_tickets_def)

lemma s0_banned_count: "ticket_count s0_banned 42 = 0"
  by (simp add: ticket_count_def s0_banned_def s0_def user_tickets_def)

theorem limit_check_precedes_blacklist_witness:
  "0 < TICKET_LIMIT_PER_USER CONFIG \<and>
   u_id alice \<in> blacklisted_users s1_banned \<and>
   TICKET_LIMIT_PER_USER CONFIG \<le> int (ticket_count s1_banned (u_id alice)) \<and>
   create_ticket CONFIG tr0 now0 alice ''Support'' ''Support ticket requested'' g0 s1_banned
     = (LIMIT_REACHED, s1_banned, []) \<and>
   u_id alice \<in> blacklisted_users s0_banned \<and>
   int (ticket_count s0_banned (u_id alice)) < TICKET_LIMIT_PER_USER CONFIG \<and>
   fst (create_ticket CONFIG tr0 now0 alice ''Support'' ''Support ticket requested'' g0 s0_banned)
     = BLACKLISTED"
proof -
  have pos: "0 < TICKET_LIMIT_PER_USER CONFIG" by (simp add: CONFIG_def)
  have b1: "u_id alice \<in> blacklisted_users s1_banned" by (simp add: s1_banned_def alice_def)
  have b0: "u_id alice \<in> blacklisted_users s0_banned" by (simp add: s0_banned_def alice_def)
  have c1: "TICKET_LIMIT_PER_USER CONFIG \<le> int (ticket_count s1_banned (u_id alice))"
    by (simp add: s1_banned_count alice_def CONFIG_def)
  have c0: "int (ticket_count s0_banned (u_id alice)) < TICKET_LIMIT_PER_USER CONFIG"
    by (simp add: s0_banned_count alice_def CONFIG_def)
  from pos b1 b0 c1 c0
    limit_check_precedes_blacklist [OF pos, of alice s1_banned tr0 now0 "''Support''"
      "''Support ticket requested''" g0 s0_banned]
  show ?thesis by simp
qed

lemma lookup_insert_ticket:
  "lookup_ticket (insert_ticket uid cid t tks) uid cid = Some t"
  by (simp add: lookup_ticket_user_tickets user_tickets_insert update_conv')

text \<open>
  Claim C2, as amended. When the two checks pass, the channel is created and one of the
  later calls (control message, pin, confirmation to the owner, log entry) raises,
  \<^verbatim>\<open>create_ticket\<close> returns the error text and the store it leaves still holds the
  ticket it wrote: nothing is rolled back, and the last call made is the one that
  raised.
\<close>

theorem create_ticket_no_rollback:
  assumes "int (ticket_count s (u_id u)) < TICKET_LIMIT_PER_USER cfg"
    and "u_id u \<notin> blacklisted_users s"
    and "ch = created_channel tr (channel_name_for u c now)"
    and "attempt (raises tr) (setup_calls cfg u c now g) = (made1, None)"
    and "attempt (raises tr) (opening_calls cfg tr u c msg g ch) = (made2, Some err)"
  shows "create_ticket cfg tr now u c msg g s =
           (CREATE_ERROR,
            s\<lparr> active_tickets :=
                 insert_ticket (u_id u) (ch_id ch) (new_ticket ch c now) (active_tickets s) \<rparr>,
            made1 @ made2) \<and>
         lookup_ticket (active_tickets (fst (snd (create_ticket cfg tr now u c msg g s))))
           (u_id u) (ch_id ch) = Some (new_ticket ch c now)"
proof -
  have "\<not> (case map_of (active_tickets s) (u_id u) of None \<Rightarrow> False
              | Some ts \<Rightarrow> int (length ts) \<ge> TICKET_LIMIT_PER_USER cfg)"
    using assms(1) by (auto simp: ticket_count_def user_tickets_def split: option.splits)
  then have run: "create_ticket cfg tr now u c msg g s =
           (CREATE_ERROR,
            s\<lparr> active_tickets :=
                 insert_ticket (u_id u) (ch_id ch) (new_ticket ch c now) (active_tickets s) \<rparr>,
            made1 @ made2)"
    using assms(2-5) by (simp add: create_ticket_def Let_def)
  show ?thesis unfolding run by (simp add: lookup_insert_ticket)
qed

lemma setup_ok: "attempt (raises tr_dm_closed) (setup_calls CONFIG alice ''Support'' now0 g0)
    = ([CreateTextChannel (channel_name_for alice ''Support'' now0)], None)"
  by (simp add: tr_dm_closed_def tr0_def setup_calls_def CONFIG_def g0_def)

lemma opening_fails:
  "attempt (raises tr_dm_closed)
     (opening_calls CONFIG tr_dm_closed alice ''Support'' ''Support ticket requested'' g0
        (created_channel tr_dm_closed (channel_name_for alice ''Support'' now0)))
   = ([ChannelSend 7 (InitialEmbed ''Support'' 42 ''Support ticket requested''), PinMessage 7,
       UserSend 42 (TicketCreatedEmbed ''Support'')],
      Some ''403 Forbidden (error code: 50007): Cannot send messages to this user'')"
  by (simp add: tr_dm_closed_def tr0_def opening_calls_def alice_def)

theorem create_ticket_no_rollback_witness:
  "int (ticket_count s0 (u_id alice)) < TICKET_LIMIT_PER_USER CONFIG \<and>
   u_id alice \<notin> blacklisted_users s0 \<and>
   fst (create_ticket CONFIG tr_dm_closed now0 alice ''Support'' ''Support ticket requested'' g0 s0)
     = CREATE_ERROR \<and>
   snd (snd (create_ticket CONFIG tr_dm_closed now0 alice ''Support'' ''Support ticket requested'' g0 s0))
     = [CreateTextChannel (channel_name_for alice ''Support'' now0),
        ChannelSend 7 (InitialEmbed ''Support'' 42 ''Support ticket requested''), PinMessage 7,
        UserSend 42 (TicketCreatedEmbed ''Support'')] \<and>
   lookup_ticket (active_tickets (fst (snd (create_ticket CONFIG tr_dm_closed now0 alice ''Support''
       ''Support ticket requested'' g0 s0)))) 42 7
     = Some (new_ticket \<lparr> ch_id = 7, ch_name = channel_name_for alice ''Support'' now0 \<rparr> ''Support'' now0)"
proof -
  have c: "int (ticket_count s0 (u_id alice)) < TICKET_LIMIT_PER_USER CONFIG"
    by (simp add: ticket_count_def s0_def user_tickets_def CONFIG_def)
  have b: "u_id alice \<notin> blacklisted_users s0" by (simp add: s0_def)
  have ch: "created_channel tr_dm_closed (channel_name_for alice ''Support'' now0)
      = \<lparr> ch_id = 7, ch_name = channel_name_for alice ''Support'' now0 \<rparr>"
    by (simp add: tr_dm_closed_def tr0_def)
  have uid: "u_id alice = 42" by (simp add: alice_def)
  from create_ticket_no_rollback [OF c b refl setup_ok opening_fails] c b
  show ?thesis by (simp add: ch uid lookup_insert_ticket)
qed

lemma alice_id: "u_id alice = 42"
  by (simp add: alice_def)

lemma s_half_tickets:
  "active_tickets s_half = insert_ticket 42 7
     (new_ticket \<lparr> ch_id = 7, ch_name = channel_name_for alice ''Support'' now0 \<rparr> ''Support'' now0) []"
  by (simp add: s_half_def create_ticket_def setup_calls_def opening_calls_def CONFIG_def s0_def
      alice_id tr_dm_closed_def tr0_def g0_def Let_def log_action_def)

text \<open>The claim as stated fails: the confirmation to the owner raises, the error text is
  returned, and the ticket that was not in the store before is in it afterwards.\<close>

theorem create_ticket_rollback_counterexample:
  "fst (create_ticket CONFIG tr_dm_closed now0 alice ''Support'' ''Support ticket requested'' g0 s0)
     = CREATE_ERROR \<and>
   raises tr_dm_closed (UserSend 42 (TicketCreatedEmbed ''Support'')) \<noteq> None \<and>
   lookup_ticket (active_tickets s0) 42 7 = None \<and>
   lookup_ticket (active_tickets s_half) 42 7 \<noteq> None"
proof -
  have "fst (create_ticket CONFIG tr_dm_closed now0 alice ''Support'' ''Support ticket requested'' g0 s0)
     = CREATE_ERROR"
    by (simp add: create_ticket_def setup_calls_def opening_calls_def CONFIG_def s0_def
      alice_id tr_dm_closed_def tr0_def g0_def Let_def log_action_def)
  moreover have "raises tr_dm_closed (UserSend 42 (TicketCreatedEmbed ''Support'')) \<noteq> None"
    by (simp add: tr_dm_closed_def)
  moreover have "lookup_ticket (active_tickets s0) 42 7 = None"
    by (simp add: s0_def lookup_ticket_def)
  moreover have "lookup_ticket (active_tickets s_half) 42 7 \<noteq> None"
    by (simp add: s_half_tickets lookup_insert_ticket)
  ultimately show ?thesis by simp
qed

section \<open>Properties of closing and archiving\<close>

lemma lookup_remove_ticket:
  "lookup_ticket (remove_ticket uid cid tks) uid' cid' =
     (if uid' = uid \<and> cid' = cid then None else lookup_ticket tks uid' cid')"
  by (simp add: lookup_ticket_user_tickets user_tickets_remove delete_conv')

lemma lookup_modify_ticket:
  "lookup_ticket (modify_ticket uid cid f tks) uid' cid' =
     (if uid' = uid \<and> cid' = cid then map_option f (lookup_ticket tks uid cid)
      else lookup_ticket tks uid' cid')"
  by (auto simp: lookup_ticket_user_tickets user_tickets_modify update_conv'
      split: option.splits)

lemma find_ticket_None:
  assumes "distinct (map fst tks)"
  shows "find_ticket cid tks = None \<longleftrightarrow> (\<forall>uid. lookup_ticket tks uid cid = None)"
proof
  assume "find_ticket cid tks = None"
  then have none: "\<forall>(uid, ts) \<in> set tks. map_of ts cid = None"
    by (auto simp: find_ticket_def find_None_iff split: option.splits)
  show "\<forall>uid. lookup_ticket tks uid cid = None"
  proof
    fix uid
    show "lookup_ticket tks uid cid = None"
    proof (cases "map_of tks uid")
      case None
      then show ?thesis by (simp add: lookup_ticket_def)
    next
      case (Some ts)
      then have "(uid, ts) \<in> set tks" by (rule map_of_SomeD)
      with none have "map_of ts cid = None" by auto
      with Some show ?thesis by (simp add: lookup_ticket_def)
    qed
  qed
next
  assume all: "\<forall>uid. lookup_ticket tks uid cid = None"
  have "\<forall>x \<in> set tks. \<not> (case x of (uid, ts) \<Rightarrow> map_of ts cid \<noteq> None)"
  proof
    fix x assume x: "x \<in> set tks"
    obtain uid ts where [simp]: "x = (uid, ts)" by (cases x)
    from x assms have "map_of tks uid = Some ts" by simp
    with all [rule_format, of uid] show "\<not> (case x of (uid, ts) \<Rightarrow> map_of ts cid \<noteq> None)"
      by (simp add: lookup_ticket_def)
  qed
  then have "find (\<lambda>(uid, ts). map_of ts cid \<noteq> None) tks = None"
    unfolding find_None_iff by blast
  then show "find_ticket cid tks = None" by (simp add: find_ticket_def)
qed

lemma distinct_remove_ticket:
  "distinct (map fst tks) \<Longrightarrow> distinct (map fst (remove_ticket uid cid tks))"
  by (simp add: remove_ticket_def Let_def distinct_update distinct_delete)

lemma actually_close_store_absent:
  "lookup_ticket (active_tickets s) (u_id u) (ch_id ch) = None
     \<Longrightarrow> fst (snd (actually_close_ticket cfg tr now closer ch u g s)) = s"
  by (simp add: actually_close_ticket_def Let_def split: option.split prod.split)

lemma actually_close_store_present:
  "lookup_ticket (active_tickets s) (u_id u) (ch_id ch) = Some t
     \<Longrightarrow> raises tr (ChannelHistory (ch_id ch)) = None
     \<Longrightarrow> raises tr (ChannelSend (ch_id ch) (TicketClosedEmbed (u_id closer))) = None
     \<Longrightarrow> fst (snd (actually_close_ticket cfg tr now closer ch u g s)) =
           retire_ticket (u_id u) (ch_id ch) (archive_record ch t now (str_nat (u_id closer))) s"
  by (simp add: actually_close_ticket_def Let_def split: option.split prod.split)

lemma attempt_all_ok: "(\<forall>e. r e = None) \<Longrightarrow> attempt r es = (es, None)"
  by (induction es) auto

lemma actually_close_absent_run:
  assumes "lookup_ticket (active_tickets s) (u_id u) (ch_id ch) = None"
    and "\<forall>e. raises tr e = None"
  shows "actually_close_ticket cfg tr now closer ch u g s =
    (Done, s,
     [ChannelHistory (ch_id ch), ChannelSend (ch_id ch) (TicketClosedEmbed (u_id closer)),
      UserSend (u_id u) (TicketClosedNotice
         (create_transcript cfg now ch u (history tr (ch_id ch))) (transcript_filename ch))] @
     log_action cfg tr g
       (''Ticket closed by '' @ u_name closer @ '' ('' @ str_nat (u_id closer) @ '')'')
       ''Ticket Closure'' [] @
     [Respond CLOSED_OK, ChannelDelete (ch_id ch)])"
  using assms by (simp add: actually_close_ticket_def Let_def attempt_all_ok)

lemma s1_lookup: "lookup_ticket (active_tickets s1) 42 7 = Some (new_ticket ch7 ''Support'' now0)"
  by (simp add: s1_tickets lookup_ticket_def ch7_def)

lemma ch7_id: "ch_id ch7 = 7"
  by (simp add: ch7_def)

lemma bob_id: "u_id bob = 99"
  by (simp add: bob_def)

lemma s_closed_eq:
  "s_closed = retire_ticket 42 7
     (archive_record ch7 (new_ticket ch7 ''Support'' now0) now1 (str_nat 99)) s1"
  using actually_close_store_present [of s1 alice ch7 "new_ticket ch7 ''Support'' now0"
      tr_no_delete bob CONFIG now1 g0]
  by (simp add: s_closed_def alice_id ch7_id bob_id s1_lookup tr_no_delete_def tr0_def)

lemma s_closed_tickets: "active_tickets s_closed = []"
  by (simp add: s_closed_eq retire_ticket_def remove_ticket_def s1_tickets user_tickets_def)

lemma s_closed_lookup: "lookup_ticket (active_tickets s_closed) 42 7 = None"
  by (simp add: s_closed_tickets lookup_ticket_def)

text \<open>
  Claim C3, as amended. When the ticket is in \<^verbatim>\<open>active_tickets\<close> and the two calls before
  the store update do not raise, the close removes it: it is no longer under its owner
  and channel id and, when no other owner holds that channel id, the search by channel
  id finds nothing. A close of a ticket that is no longer there leaves the store as it
  is, whatever the transport does; but it is not refused: when no call raises it ends
  normally after sending the closing notice, the owner's transcript, the log entry and
  the success reply again and deleting the channel.
\<close>

theorem close_removes_second_close_repeats:
  "(lookup_ticket (active_tickets s) (u_id u) (ch_id ch) = Some t \<and>
    raises tr (ChannelHistory (ch_id ch)) = None \<and>
    raises tr (ChannelSend (ch_id ch) (TicketClosedEmbed (u_id closer))) = None \<longrightarrow>
      lookup_ticket (active_tickets (fst (snd (actually_close_ticket cfg tr now closer ch u g s))))
        (u_id u) (ch_id ch) = None \<and>
      (distinct (map fst (active_tickets s)) \<and>
       (\<forall>uid. uid \<noteq> u_id u \<longrightarrow> lookup_ticket (active_tickets s) uid (ch_id ch) = None) \<longrightarrow>
         find_ticket (ch_id ch)
           (active_tickets (fst (snd (actually_close_ticket cfg tr now closer ch u g s)))) = None)) \<and>
   (lookup_ticket (active_tickets s') (u_id u) (ch_id ch) = None \<longrightarrow>
      fst (snd (actually_close_ticket cfg tr' now' closer' ch u g s')) = s' \<and>
      ((\<forall>e. raises tr' e = None) \<longrightarrow>
         actually_close_ticket cfg tr' now' closer' ch u g s' =
           (Done, s',
            [ChannelHistory (ch_id ch), ChannelSend (ch_id ch) (TicketClosedEmbed (u_id closer')),
             UserSend (u_id u) (TicketClosedNotice
                (create_transcript cfg now' ch u (history tr' (ch_id ch))) (transcript_filename ch))] @
            log_action cfg tr' g
              (''Ticket closed by '' @ u_name closer' @ '' ('' @ str_nat (u_id closer') @ '')'')
              ''Ticket Closure'' [] @
            [Respond CLOSED_OK, ChannelDelete (ch_id ch)])))"
proof (intro conjI impI)
  assume a: "lookup_ticket (active_tickets s) (u_id u) (ch_id ch) = Some t \<and>
    raises tr (ChannelHistory (ch_id ch)) = None \<and>
    raises tr (ChannelSend (ch_id ch) (TicketClosedEmbed (u_id closer))) = None"
  then have st: "fst (snd (actually_close_ticket cfg tr now closer ch u g s)) =
      retire_ticket (u_id u) (ch_id ch) (archive_record ch t now (str_nat (u_id closer))) s"
    by (simp add: actually_close_store_present)
  show "lookup_ticket (active_tickets (fst (snd (actually_close_ticket cfg tr now closer ch u g s))))
        (u_id u) (ch_id ch) = None"
    by (simp add: st retire_ticket_def lookup_remove_ticket)
  assume b: "distinct (map fst (active_tickets s)) \<and>
       (\<forall>uid. uid \<noteq> u_id u \<longrightarrow> lookup_ticket (active_tickets s) uid (ch_id ch) = None)"
  then have "distinct (map fst (remove_ticket (u_id u) (ch_id ch) (active_tickets s)))"
    by (simp add: distinct_remove_ticket)
  moreover from b have "\<forall>uid. lookup_ticket (remove_ticket (u_id u) (ch_id ch) (active_tickets s))
      uid (ch_id ch) = None"
    by (simp add: lookup_remove_ticket)
  ultimately show "find_ticket (ch_id ch)
      (active_tickets (fst (snd (actually_close_ticket cfg tr now closer ch u g s)))) = None"
    by (simp add: st retire_ticket_def find_ticket_None)
next
  assume "lookup_ticket (active_tickets s') (u_id u) (ch_id ch) = None"
  then show "fst (snd (actually_close_ticket cfg tr' now' closer' ch u g s')) = s'"
    by (rule actually_close_store_absent)
next
  assume "lookup_ticket (active_tickets s') (u_id u) (ch_id ch) = None"
    and "\<forall>e. raises tr' e = None"
  then show "actually_close_ticket cfg tr' now' closer' ch u g s' =
           (Done, s',
            [ChannelHistory (ch_id ch), ChannelSend (ch_id ch) (TicketClosedEmbed (u_id closer')),
             UserSend (u_id u) (TicketClosedNotice
                (create_transcript cfg now' ch u (history tr' (ch_id ch))) (transcript_filename ch))] @
            log_action cfg tr' g
              (''Ticket closed by '' @ u_name closer' @ '' ('' @ str_nat (u_id closer') @ '')'')
              ''Ticket Closure'' [] @
            [Respond CLOSED_OK, ChannelDelete (ch_id ch)])"
    by (rule actually_close_absent_run)
qed

lemma s1_other_owners: "uid \<noteq> 42 \<Longrightarrow> lookup_ticket (active_tickets s1) uid 7 = None"
  by (simp add: s1_tickets lookup_ticket_def)

lemma log_action_g0:
  "log_action CONFIG tr0 g0 action category details = [ChannelSend 1 (LogEmbed category action details)]"
  by (simp add: log_action_def CONFIG_def g0_def)

theorem close_removes_second_close_repeats_witness:
  "lookup_ticket (active_tickets s1) (u_id alice) (ch_id ch7) = Some (new_ticket ch7 ''Support'' now0) \<and>
   raises tr_no_delete (ChannelHistory (ch_id ch7)) = None \<and>
   raises tr_no_delete (ChannelSend (ch_id ch7) (TicketClosedEmbed (u_id bob))) = None \<and>
   distinct (map fst (active_tickets s1)) \<and>
   lookup_ticket (active_tickets s_closed) (u_id alice) (ch_id ch7) = None \<and>
   find_ticket (ch_id ch7) (active_tickets s_closed) = None \<and>
   (\<forall>e. raises tr0 e = None) \<and>
   fst (snd (actually_close_ticket CONFIG tr0 now2 bob ch7 alice g0 s_closed)) = s_closed \<and>
   fst (actually_close_ticket CONFIG tr0 now2 bob ch7 alice g0 s_closed) = Done \<and>
   snd (snd (actually_close_ticket CONFIG tr0 now2 bob ch7 alice g0 s_closed)) =
     [ChannelHistory 7, ChannelSend 7 (TicketClosedEmbed 99),
      UserSend 42 (TicketClosedNotice (create_transcript CONFIG now2 ch7 alice []) (transcript_filename ch7)),
      ChannelSend 1 (LogEmbed ''Ticket Closure''
        (''Ticket closed by '' @ u_name bob @ '' ('' @ str_nat 99 @ '')'') []),
      Respond CLOSED_OK, ChannelDelete 7]"
proof -
  have p1: "lookup_ticket (active_tickets s1) (u_id alice) (ch_id ch7) = Some (new_ticket ch7 ''Support'' now0)"
    by (simp add: alice_id ch7_id s1_lookup)
  have p2: "raises tr_no_delete (ChannelHistory (ch_id ch7)) = None"
    "raises tr_no_delete (ChannelSend (ch_id ch7) (TicketClosedEmbed (u_id bob))) = None"
    by (simp_all add: tr_no_delete_def tr0_def)
  have p3: "distinct (map fst (active_tickets s1))" by (simp add: s1_tickets)
  have p4: "\<forall>uid. uid \<noteq> u_id alice \<longrightarrow> lookup_ticket (active_tickets s1) uid (ch_id ch7) = None"
    by (simp add: alice_id ch7_id s1_other_owners)
  have p5: "lookup_ticket (active_tickets s_closed) (u_id alice) (ch_id ch7) = None"
    by (simp add: alice_id ch7_id s_closed_lookup)
  have p6: "\<forall>e. raises tr0 e = None" by (simp add: tr0_def)
  have h: "history tr0 7 = []" by (simp add: tr0_def)
  from close_removes_second_close_repeats [of s1 alice ch7 "new_ticket ch7 ''Support'' now0"
      tr_no_delete bob CONFIG now1 g0 s_closed tr0 now2 bob] p1 p2 p3 p4 p5 p6
  show ?thesis
    by (simp add: s_closed_def [symmetric] alice_id ch7_id bob_id log_action_g0 h)
qed

text \<open>The claim as stated fails. The first close removes the ticket and only the deletion
  of the channel raises; the second close of the same ticket is not refused: it ends
  normally, with the closing notice, the owner's transcript, the log entry, the success
  reply and the deletion made again.\<close>

theorem second_close_not_found_counterexample:
  "lookup_ticket (active_tickets s1) 42 7 \<noteq> None \<and>
   lookup_ticket (active_tickets s_closed) 42 7 = None \<and>
   actually_close_ticket CONFIG tr0 now2 bob ch7 alice g0 s_closed =
     (Done, s_closed,
      [ChannelHistory 7, ChannelSend 7 (TicketClosedEmbed 99),
       UserSend 42 (TicketClosedNotice (create_transcript CONFIG now2 ch7 alice []) (transcript_filename ch7)),
       ChannelSend 1 (LogEmbed ''Ticket Closure''
         (''Ticket closed by '' @ u_name bob @ '' ('' @ str_nat 99 @ '')'') []),
       Respond CLOSED_OK, ChannelDelete 7])"
proof -
  have "lookup_ticket (active_tickets s_closed) (u_id alice) (ch_id ch7) = None"
    by (simp add: alice_id ch7_id s_closed_lookup)
  moreover have "\<forall>e. raises tr0 e = None" by (simp add: tr0_def)
  ultimately have "actually_close_ticket CONFIG tr0 now2 bob ch7 alice g0 s_closed =
    (Done, s_closed,
     [ChannelHistory (ch_id ch7), ChannelSend (ch_id ch7) (TicketClosedEmbed (u_id bob)),
      UserSend (u_id alice) (TicketClosedNotice
         (create_transcript CONFIG now2 ch7 alice (history tr0 (ch_id ch7))) (transcript_filename ch7))] @
     log_action CONFIG tr0 g0
       (''Ticket closed by '' @ u_name bob @ '' ('' @ str_nat (u_id bob) @ '')'')
       ''Ticket Closure'' [] @
     [Respond CLOSED_OK, ChannelDelete (ch_id ch7)])"
    by (rule actually_close_absent_run)
  moreover have "history tr0 7 = []" by (simp add: tr0_def)
  ultimately show ?thesis
    by (simp add: s1_lookup s_closed_lookup alice_id ch7_id bob_id log_action_g0)
qed

lemma archive_button_store:
  "lookup_ticket (active_tickets s) (u_id u) (ch_id ch) = Some t
     \<Longrightarrow> raises tr (Respond ''Archiving ticket...'') = None
     \<Longrightarrow> raises tr (ChannelArchive (ch_id ch)) = None
     \<Longrightarrow> fst (snd (archive_button tr ch u s)) =
           s\<lparr> active_tickets :=
                modify_ticket (u_id u) (ch_id ch) (\<lambda>t. t\<lparr> t_closed := True \<rparr>) (active_tickets s) \<rparr>"
  by (auto simp: archive_button_def Let_def lookup_ticket_def split: option.splits)

lemma ticket_logs_retire:
  "ticket_logs (retire_ticket uid cid r s) (str_nat uid) =
     Some ((case ticket_logs s (str_nat uid) of None \<Rightarrow> [] | Some rs \<Rightarrow> rs) @ [r])"
  by (simp add: retire_ticket_def append_log_def)

text \<open>
  Claim C4, as amended. The Archive button, when its acknowledgement and the edit of the
  channel do not raise, sets the ticket's closed flag and that is all: the ticket stays
  in \<^verbatim>\<open>active_tickets\<close> and \<^verbatim>\<open>ticket_logs\<close> is unchanged. A close, when the two calls
  before the store update do not raise, removes the ticket from \<^verbatim>\<open>active_tickets\<close> and
  appends its summary record to the owner's list in \<^verbatim>\<open>ticket_logs\<close> in the same step.
\<close>

theorem archive_flags_close_retires:
  "(lookup_ticket (active_tickets s) (u_id u) (ch_id ch) = Some t \<and>
    raises tr (Respond ''Archiving ticket...'') = None \<and>
    raises tr (ChannelArchive (ch_id ch)) = None \<longrightarrow>
      lookup_ticket (active_tickets (fst (snd (archive_button tr ch u s)))) (u_id u) (ch_id ch)
        = Some (t\<lparr> t_closed := True \<rparr>) \<and>
      ticket_logs (fst (snd (archive_button tr ch u s))) = ticket_logs s) \<and>
   (lookup_ticket (active_tickets s') (u_id u) (ch_id ch) = Some t' \<and>
    raises tr' (ChannelHistory (ch_id ch)) = None \<and>
    raises tr' (ChannelSend (ch_id ch) (TicketClosedEmbed (u_id closer))) = None \<longrightarrow>
      lookup_ticket (active_tickets (fst (snd (actually_close_ticket cfg tr' now closer ch u g s'))))
        (u_id u) (ch_id ch) = None \<and>
      ticket_logs (fst (snd (actually_close_ticket cfg tr' now closer ch u g s'))) (str_nat (u_id u))
        = Some ((case ticket_logs s' (str_nat (u_id u)) of None \<Rightarrow> [] | Some rs \<Rightarrow> rs) @
                [archive_record ch t' now (str_nat (u_id closer))]))"
  by (simp add: archive_button_store actually_close_store_present lookup_modify_ticket
      ticket_logs_retire lookup_remove_ticket retire_ticket_def [where s = s'] append_log_def)

lemma s_archived_eq:
  "s_archived = s1\<lparr> active_tickets :=
      modify_ticket 42 7 (\<lambda>t. t\<lparr> t_closed := True \<rparr>) (active_tickets s1) \<rparr>"
  using archive_button_store [of s1 alice ch7 "new_ticket ch7 ''Support'' now0" tr0]
  by (simp add: s_archived_def alice_id ch7_id s1_lookup tr0_def)

lemma s1_logs: "ticket_logs s1 = Map.empty"
  by (simp add: s1_def create_ticket_def setup_calls_def opening_calls_def CONFIG_def s0_def
      alice_id tr0_def g0_def Let_def log_action_def)

theorem archive_flags_close_retires_witness:
  "lookup_ticket (active_tickets s1) (u_id alice) (ch_id ch7) = Some (new_ticket ch7 ''Support'' now0) \<and>
   raises tr0 (Respond ''Archiving ticket...'') = None \<and>
   raises tr0 (ChannelArchive (ch_id ch7)) = None \<and>
   lookup_ticket (active_tickets s_archived) 42 7
     = Some ((new_ticket ch7 ''Support'' now0)\<lparr> t_closed := True \<rparr>) \<and>
   ticket_logs s_archived = ticket_logs s1 \<and>
   raises tr_no_delete (ChannelHistory (ch_id ch7)) = None \<and>
   raises tr_no_delete (ChannelSend (ch_id ch7) (TicketClosedEmbed (u_id bob))) = None \<and>
   lookup_ticket (active_tickets s_closed) 42 7 = None \<and>
   ticket_logs s_closed (str_nat 42)
     = Some [archive_record ch7 (new_ticket ch7 ''Support'' now0) now1 (str_nat 99)]"
proof -
  have p1: "lookup_ticket (active_tickets s1) (u_id alice) (ch_id ch7) = Some (new_ticket ch7 ''Support'' now0)"
    by (simp add: alice_id ch7_id s1_lookup)
  have p2: "raises tr0 (Respond ''Archiving ticket...'') = None"
    "raises tr0 (ChannelArchive (ch_id ch7)) = None"
    by (simp_all add: tr0_def)
  have p3: "raises tr_no_delete (ChannelHistory (ch_id ch7)) = None"
    "raises tr_no_delete (ChannelSend (ch_id ch7) (TicketClosedEmbed (u_id bob))) = None"
    by (simp_all add: tr_no_delete_def tr0_def)
  from archive_flags_close_retires [of s1 alice ch7 "new_ticket ch7 ''Support'' now0" tr0
      s1 "new_ticket ch7 ''Support'' now0" tr_no_delete bob CONFIG now1 g0] p1 p2 p3
  show ?thesis
    by (simp add: s_closed_def [symmetric] s_archived_def [symmetric] alice_id ch7_id bob_id s1_logs)
qed

text \<open>The claim as stated fails at the Archive button: after it the ticket's closed flag
  is set, the ticket is still in \<^verbatim>\<open>active_tickets\<close>, and the owner has no record in
  \<^verbatim>\<open>ticket_logs\<close>.\<close>

theorem archive_keeps_ticket_counterexample:
  "fst (archive_button tr0 ch7 alice s1) = Done \<and>
   map_option t_closed (lookup_ticket (active_tickets s1) 42 7) = Some False \<and>
   map_option t_closed (lookup_ticket (active_tickets s_archived) 42 7) = Some True \<and>
   ticket_logs s_archived (str_nat 42) = None"
proof -
  have "fst (archive_button tr0 ch7 alice s1) = Done"
    by (simp add: archive_button_def Let_def tr0_def alice_id ch7_id s1_tickets)
  moreover have "map_option t_closed (lookup_ticket (active_tickets s1) 42 7) = Some False"
    by (simp add: s1_lookup new_ticket_def)
  moreover have "map_option t_closed (lookup_ticket (active_tickets s_archived) 42 7) = Some True"
    by (simp add: s_archived_eq lookup_modify_ticket s1_lookup)
  moreover have "ticket_logs s_archived (str_nat 42) = None"
    by (simp add: s_archived_eq s1_logs)
  ultimately show ?thesis by simp
qed

section \<open>Properties of the transcript\<close>

lemma create_transcript_eq_iff:
  "create_transcript cfg t1 ch u msgs = create_transcript cfg t2 ch u msgs
     \<longleftrightarrow> strftime_seconds t1 = strftime_seconds t2"
  by (simp add: create_transcript_def)

text \<open>
  Claim C5, as amended. The transcript depends on the time of the call, through the
  third line of its header: for the same channel, user and message history, two calls
  return the same text exactly when their times, printed to the second, are the same.
\<close>

theorem transcript_same_iff_same_second:
  "create_transcript cfg t1 ch u msgs = create_transcript cfg t2 ch u msgs
     \<longleftrightarrow> strftime_seconds t1 = strftime_seconds t2"
  by (rule create_transcript_eq_iff)

lemma strftime_now1_now2: "strftime_seconds now1 \<noteq> strftime_seconds now2"
  by (simp add: strftime_seconds_def zpad_def now1_def now2_def now0_def str_nat.simps
      digit_char_def)

text \<open>The claim as stated fails: the same (empty) message history rendered at two times
  a second apart gives two different texts.\<close>

theorem transcript_time_counterexample:
  "create_transcript CONFIG now1 ch7 alice [] \<noteq> create_transcript CONFIG now2 ch7 alice []"
  by (simp add: create_transcript_eq_iff strftime_now1_now2)

section \<open>Properties of the welcome message\<close>

lemma welcome_sent:
  assumes "raises tr (UserSend (u_id u) WelcomeEmbed) = None"
    and "snd (snd (send_welcome_message cfg tr now u s)) \<noteq> []"
  shows "send_welcome_message cfg tr now u s =
    (ending (raises tr SaveData),
     s\<lparr> user_welcome_timestamps := (user_welcome_timestamps s)(u_id u \<mapsto> timestamp now) \<rparr>,
     [UserSend (u_id u) WelcomeEmbed, SaveData])"
  using assms by (simp add: send_welcome_message_def Let_def split: if_splits)

lemma welcome_suppressed:
  assumes "user_welcome_timestamps s (u_id u) = Some prev"
    and "timestamp now - prev < of_int (WELCOME_MESSAGE_COOLDOWN cfg)"
  shows "send_welcome_message cfg tr now u s = (Done, s, [])"
  using assms by (simp add: send_welcome_message_def Let_def)

lemma welcome_due:
  assumes "user_welcome_timestamps s (u_id u) = Some prev"
    and "\<not> timestamp now - prev < of_int (WELCOME_MESSAGE_COOLDOWN cfg)"
  shows "send_welcome_message cfg tr now u s =
    (case raises tr (UserSend (u_id u) WelcomeEmbed) of
       Some err \<Rightarrow> (Escaped err, s, [UserSend (u_id u) WelcomeEmbed])
     | None \<Rightarrow>
        (ending (raises tr SaveData),
         s\<lparr> user_welcome_timestamps := (user_welcome_timestamps s)(u_id u \<mapsto> timestamp now) \<rparr>,
         [UserSend (u_id u) WelcomeEmbed, SaveData]))"
  using assms by (simp add: send_welcome_message_def Let_def)

lemma first_welcome:
  "snd (snd (send_welcome_message CONFIG tr0 now0 alice s0)) = [UserSend 42 WelcomeEmbed, SaveData]"
  by (simp add: send_welcome_message_def s0_def tr0_def alice_id Let_def)

section \<open>Properties of the router\<close>

lemma attempt_subset: "set (fst (attempt r es)) \<subseteq> set es"
  by (induction es) (auto split: option.splits prod.splits)

lemma attempt_fail_last: "attempt r es = (made, Some err) \<Longrightarrow> made \<noteq> [] \<and> r (last made) = Some err"
  by (induction es arbitrary: made) (auto split: option.splits prod.splits if_splits)

lemma welcome_no_prompt:
  "ChannelSend c (SelectTicketEmbed opts) \<notin> set (snd (snd (send_welcome_message cfg tr now u s)))"
  by (simp add: send_welcome_message_def Let_def split: option.split)

lemma attempt_notin: "e \<notin> set es \<Longrightarrow> e \<notin> set (fst (attempt r es))"
  using attempt_subset by fastforce

lemma forward_trace:
  "snd (snd (forward_to_channel cfg tr now m ch s)) =
     (case find_ticket (ch_id ch) (active_tickets s) of
        Some uid \<Rightarrow>
          read_attachments tr m @
          [ChannelSend (ch_id ch) (message_embed tr (u_name (m_author m)) m)] @
          (case raises tr (ChannelSend (ch_id ch) (message_embed tr (u_name (m_author m)) m)) of
             Some err \<Rightarrow> [ChannelSend (m_channel_id m) (forward_error err)]
           | None \<Rightarrow>
               (let ticket_msg = sent_id tr (ChannelSend (ch_id ch) (message_embed tr (u_name (m_author m)) m));
                    res = attempt (raises tr)
                      [AddReaction ticket_msg CheckMark, AddReaction ticket_msg ReplyArrow,
                       AddReaction ticket_msg Memo, AddReaction (m_id m) CheckMark]
                in fst res @ (case snd res of None \<Rightarrow> []
                     | Some err \<Rightarrow> [ChannelSend (m_channel_id m) (forward_error err)])))
      | None \<Rightarrow>
          ChannelSend (m_channel_id m) (Text NOT_FOUND_NOTICE) #
          (case raises tr (ChannelSend (m_channel_id m) (Text NOT_FOUND_NOTICE)) of
             Some err \<Rightarrow> [ChannelSend (m_channel_id m) (forward_error err)]
           | None \<Rightarrow>
               snd (snd (send_welcome_message cfg tr now (m_author m) s)) @
               (case fst (send_welcome_message cfg tr now (m_author m) s) of
                  Escaped err \<Rightarrow> [ChannelSend (m_channel_id m) (forward_error err)]
                | _ \<Rightarrow> [])))"
  unfolding forward_to_channel_def Let_def
  by (simp add: split_beta split: option.split outcome.split)

lemma reads_only_read: "ChannelSend c x \<notin> set (read_attachments tr m)"
  by (auto simp: read_attachments_def)

lemma forward_no_prompt:
  "ChannelSend c (SelectTicketEmbed opts) \<notin> set (snd (snd (forward_to_channel cfg tr now m ch s)))"
  by (simp add: forward_trace reads_only_read message_embed_def forward_error_def
      attempt_notin welcome_no_prompt Let_def del: attempt.simps
      split: option.split outcome.split)

lemma then_commands_trace_subset:
  "set (snd (snd (then_commands tr m x))) \<subseteq> set (snd (snd x)) \<union> {ProcessCommands (m_id m)}"
  by (cases x) (auto simp: then_commands_def split: outcome.splits)

text \<open>
  Claim C10. A direct message that is a reply, from a user who is not a bot and not on
  the blacklist, whose text is not a command and who has more than one ticket in
  \<^verbatim>\<open>active_tickets\<close>, is handed to \<^verbatim>\<open>forward_to_channel\<close> with the channel of the first
  of the user's tickets, in dictionary order, that is not flagged closed; no selection
  prompt is sent. Nothing else about the reply is looked at.
\<close>

theorem reply_goes_to_first_open_ticket:
  assumes "m_is_dm m" and "\<not> u_bot (m_author m)" and "take 1 (m_content m) \<noteq> ''!''"
    and "u_id (m_author m) \<notin> blacklisted_users s"
    and "map_of (active_tickets s) (u_id (m_author m)) = Some ts"
    and "length ts > 1" and "m_reference m"
    and "find (\<lambda>(cid, t). \<not> t_closed t) ts = Some (cid, t)"
  shows "on_message cfg tr now bot_id m s =
           then_commands tr m (forward_to_channel cfg tr now m (t_channel t) s) \<and>
         (\<forall>c opts. ChannelSend c (SelectTicketEmbed opts)
            \<notin> set (snd (snd (on_message cfg tr now bot_id m s))))"
proof -
  have run: "on_message cfg tr now bot_id m s =
      then_commands tr m (forward_to_channel cfg tr now m (t_channel t) s)"
    using assms by (simp add: on_message_def Let_def)
  have "\<And>c opts. ChannelSend c (SelectTicketEmbed opts)
      \<notin> set (snd (snd (then_commands tr m (forward_to_channel cfg tr now m (t_channel t) s))))"
    using then_commands_trace_subset [of tr m "forward_to_channel cfg tr now m (t_channel t) s"]
      forward_no_prompt [of _ _ cfg tr now m "t_channel t" s]
    by auto
  with run show ?thesis by simp
qed

lemma s_two_find8: "find_ticket 8 (active_tickets s_two) = Some 42"
  by (simp add: s_two_def find_ticket_def)

lemma ch8_id: "ch_id ch8 = 8"
  by (simp add: ch8_def)

lemma forward_reply_tr0:
  "forward_to_channel CONFIG tr0 now1 m_reply ch8 s_two =
    (Done,
     s_two\<lparr> active_tickets :=
       modify_ticket 42 8 (\<lambda>t. t\<lparr> t_messages := t_messages t @ [message_entry now1 m_reply (Some 100) (Some 555)] \<rparr>)
         (modify_ticket 42 8 (\<lambda>t. t\<lparr> t_last_activity := now1 \<rparr>) (active_tickets s_two)) \<rparr>,
     [ChannelSend 8 (MessageEmbed ''alice'' ''hello'' [] []),
      AddReaction 100 CheckMark, AddReaction 100 ReplyArrow, AddReaction 100 Memo,
      AddReaction 555 CheckMark])"
  by (simp add: forward_to_channel_def Let_def s_two_find8 ch8_id tr0_def m_reply_def
      read_attachments_def message_embed_def alice_def)

theorem reply_goes_to_first_open_ticket_witness:
  "m_is_dm m_reply \<and> \<not> u_bot (m_author m_reply) \<and> take 1 (m_content m_reply) \<noteq> ''!'' \<and>
   u_id (m_author m_reply) \<notin> blacklisted_users s_two \<and>
   map_of (active_tickets s_two) (u_id (m_author m_reply))
     = Some [(7, (new_ticket ch7 ''Support'' now0)\<lparr> t_closed := True \<rparr>),
             (8, new_ticket ch8 ''Billing'' now0)] \<and>
   m_reference m_reply \<and>
   on_message CONFIG tr0 now1 1 m_reply s_two =
     then_commands tr0 m_reply (forward_to_channel CONFIG tr0 now1 m_reply ch8 s_two) \<and>
   snd (snd (on_message CONFIG tr0 now1 1 m_reply s_two)) =
     [ChannelSend 8 (MessageEmbed ''alice'' ''hello'' [] []),
      AddReaction 100 CheckMark, AddReaction 100 ReplyArrow, AddReaction 100 Memo,
      AddReaction 555 CheckMark, ProcessCommands 555]"
proof -
  have p: "m_is_dm m_reply" "\<not> u_bot (m_author m_reply)" "take 1 (m_content m_reply) \<noteq> ''!''"
    "m_reference m_reply"
    by (simp_all add: m_reply_def alice_def)
  have b: "u_id (m_author m_reply) \<notin> blacklisted_users s_two"
    by (simp add: s_two_def s0_def)
  have ts: "map_of (active_tickets s_two) (u_id (m_author m_reply))
     = Some [(7, (new_ticket ch7 ''Support'' now0)\<lparr> t_closed := True \<rparr>),
             (8, new_ticket ch8 ''Billing'' now0)]"
    by (simp add: s_two_def m_reply_def alice_def)
  have len: "length [(7::nat, (new_ticket ch7 ''Support'' now0)\<lparr> t_closed := True \<rparr>),
             (8, new_ticket ch8 ''Billing'' now0)] > 1"
    by simp
  have first: "find (\<lambda>(cid, t). \<not> t_closed t)
      [(7::nat, (new_ticket ch7 ''Support'' now0)\<lparr> t_closed := True \<rparr>),
       (8, new_ticket ch8 ''Billing'' now0)] = Some (8, new_ticket ch8 ''Billing'' now0)"
    by (simp add: new_ticket_def)
  have c: "t_channel (new_ticket ch8 ''Billing'' now0) = ch8" by (simp add: new_ticket_def)
  have pc: "raises tr0 (ProcessCommands 555) = None" by (simp add: tr0_def)
  have mid: "m_id m_reply = 555" by (simp add: m_reply_def)
  from reply_goes_to_first_open_ticket [OF p(1-3) b ts len p(4) first, of CONFIG tr0 now1 1] p b ts
  show ?thesis
    by (simp add: c forward_reply_tr0 then_commands_def ending_def pc mid)
qed

section \<open>Properties of forwarding\<close>

lemma forward_tickets:
  "find_ticket (ch_id ch) (active_tickets s) = Some uid \<Longrightarrow>
   active_tickets (fst (snd (forward_to_channel cfg tr now m ch s))) =
     (case raises tr (ChannelSend (ch_id ch) (message_embed tr (u_name (m_author m)) m)) of
        Some err \<Rightarrow>
          modify_ticket uid (ch_id ch) (\<lambda>t. t\<lparr> t_last_activity := now \<rparr>) (active_tickets s)
      | None \<Rightarrow>
          modify_ticket uid (ch_id ch)
            (\<lambda>t. t\<lparr> t_messages := t_messages t @
               [message_entry now m
                  (Some (sent_id tr (ChannelSend (ch_id ch) (message_embed tr (u_name (m_author m)) m))))
                  (Some (m_id m))] \<rparr>)
            (modify_ticket uid (ch_id ch) (\<lambda>t. t\<lparr> t_last_activity := now \<rparr>) (active_tickets s)))"
  unfolding forward_to_channel_def Let_def
  by (simp add: split_beta del: attempt.simps split: option.split)

lemma relay_tickets:
  "active_tickets (fst (snd (relay_to_owner cfg tr now m owner s))) =
     modify_ticket owner (m_channel_id m)
       (\<lambda>t. t\<lparr> t_last_activity := now, t_messages := t_messages t @ [message_entry now m None None] \<rparr>)
       (active_tickets s)"
  unfolding relay_to_owner_def Let_def
  by (simp add: split_beta del: attempt.simps split: option.split)

lemma relay_trace:
  "snd (snd (relay_to_owner cfg tr now m owner s)) =
     (case raises tr (FetchUser owner) of
        Some err \<Rightarrow> [FetchUser owner, ChannelSend (m_channel_id m) (relay_error err)]
      | None \<Rightarrow>
         (let res = attempt (raises tr)
                [UserSend (u_id (fetched_user tr owner))
                   (message_embed tr (if ANONYMOUS_REPLIES cfg then ''Staff'' else u_name (m_author m)) m),
                 AddReaction (m_id m) CheckMark]
          in FetchUser owner # read_attachments tr m @ fst res @
             (case snd res of None \<Rightarrow> []
              | Some err \<Rightarrow> [ChannelSend (m_channel_id m) (relay_error err)])))"
  unfolding relay_to_owner_def Let_def
  by (simp add: split_beta del: attempt.simps split: option.split)

lemma attempt_first_raises: "r e = Some err \<Longrightarrow> attempt r (e # es) = ([e], Some err)"
  by simp

text \<open>
  Claim C8, as amended. Staff to user: the entry is appended to the ticket's message log
  before anything is sent, so it is there whatever the transport does, and when the
  send to the owner raises, the error notice goes to the ticket channel. User to staff:
  when the send to the ticket channel raises, the error notice goes to the user's
  channel and the message log is as it was (only the activity time is new); the entry
  is appended exactly when that send does not raise, and then it stays whatever the
  later calls do.
\<close>

theorem forwarding_failure_and_log:
  "(lookup_ticket (active_tickets s) owner (m_channel_id m) = Some t \<longrightarrow>
      lookup_ticket (active_tickets (fst (snd (relay_to_owner cfg tr now m owner s)))) owner (m_channel_id m)
        = Some (t\<lparr> t_last_activity := now,
                   t_messages := t_messages t @ [message_entry now m None None] \<rparr>) \<and>
      (\<forall>err. raises tr (FetchUser owner) = None \<and>
         raises tr (UserSend (u_id (fetched_user tr owner))
           (message_embed tr (if ANONYMOUS_REPLIES cfg then ''Staff'' else u_name (m_author m)) m)) = Some err \<longrightarrow>
         snd (snd (relay_to_owner cfg tr now m owner s)) =
           FetchUser owner # read_attachments tr m @
           [UserSend (u_id (fetched_user tr owner))
              (message_embed tr (if ANONYMOUS_REPLIES cfg then ''Staff'' else u_name (m_author m)) m),
            ChannelSend (m_channel_id m) (relay_error err)])) \<and>
   (find_ticket (ch_id ch) (active_tickets s') = Some uid \<and>
    lookup_ticket (active_tickets s') uid (ch_id ch) = Some t' \<longrightarrow>
      (\<forall>err. raises tr' (ChannelSend (ch_id ch) (message_embed tr' (u_name (m_author m')) m')) = Some err \<longrightarrow>
         lookup_ticket (active_tickets (fst (snd (forward_to_channel cfg tr' now m' ch s')))) uid (ch_id ch)
           = Some (t'\<lparr> t_last_activity := now \<rparr>) \<and>
         snd (snd (forward_to_channel cfg tr' now m' ch s')) =
           read_attachments tr' m' @
           [ChannelSend (ch_id ch) (message_embed tr' (u_name (m_author m')) m'),
            ChannelSend (m_channel_id m') (forward_error err)]) \<and>
      (raises tr' (ChannelSend (ch_id ch) (message_embed tr' (u_name (m_author m')) m')) = None \<longrightarrow>
         lookup_ticket (active_tickets (fst (snd (forward_to_channel cfg tr' now m' ch s')))) uid (ch_id ch)
           = Some (t'\<lparr> t_last_activity := now,
                       t_messages := t_messages t' @
                         [message_entry now m'
                            (Some (sent_id tr' (ChannelSend (ch_id ch) (message_embed tr' (u_name (m_author m')) m'))))
                            (Some (m_id m'))] \<rparr>)))"
  by (simp add: relay_tickets relay_trace forward_tickets forward_trace lookup_modify_ticket
      attempt_first_raises Let_def del: attempt.simps)

lemma s_two_lookup8: "lookup_ticket (active_tickets s_two) 42 8 = Some (new_ticket ch8 ''Billing'' now0)"
  by (simp add: s_two_def lookup_ticket_def)

lemma embed_reply: "message_embed tr (u_name (m_author m_reply)) m_reply = MessageEmbed ''alice'' ''hello'' [] []"
  by (simp add: message_embed_def m_reply_def alice_def)

lemma embed_staff:
  "message_embed tr (if ANONYMOUS_REPLIES CONFIG then ''Staff'' else u_name (m_author m_staff)) m_staff
     = MessageEmbed ''bob'' ''On it'' [] []"
  by (simp add: message_embed_def m_staff_def bob_def CONFIG_def)

lemma m_reply_fields: "m_channel_id m_reply = 4242" "m_id m_reply = 555" "read_attachments tr m_reply = []"
  by (simp_all add: m_reply_def read_attachments_def)

lemma m_staff_fields: "m_channel_id m_staff = 8" "m_id m_staff = 777" "read_attachments tr m_staff = []"
  by (simp_all add: m_staff_def read_attachments_def)

theorem forwarding_failure_and_log_witness:
  "lookup_ticket (active_tickets s_two) 42 (m_channel_id m_staff) = Some (new_ticket ch8 ''Billing'' now0) \<and>
   raises tr_relay_fails (FetchUser 42) = None \<and>
   raises tr_relay_fails (UserSend 42 (MessageEmbed ''bob'' ''On it'' [] []))
     = Some ''403 Forbidden (error code: 50007): Cannot send messages to this user'' \<and>
   lookup_ticket (active_tickets (fst (snd (relay_to_owner CONFIG tr_relay_fails now1 m_staff 42 s_two)))) 42 8
     = Some ((new_ticket ch8 ''Billing'' now0)\<lparr> t_last_activity := now1,
          t_messages := t_messages (new_ticket ch8 ''Billing'' now0) @ [message_entry now1 m_staff None None] \<rparr>) \<and>
   snd (snd (relay_to_owner CONFIG tr_relay_fails now1 m_staff 42 s_two)) =
     [FetchUser 42, UserSend 42 (MessageEmbed ''bob'' ''On it'' [] []),
      ChannelSend 8 (relay_error ''403 Forbidden (error code: 50007): Cannot send messages to this user'')] \<and>
   find_ticket (ch_id ch8) (active_tickets s_two) = Some 42 \<and>
   raises tr_send_fails (ChannelSend 8 (MessageEmbed ''alice'' ''hello'' [] [])) = Some ''503 Service Unavailable'' \<and>
   lookup_ticket (active_tickets (fst (snd (forward_to_channel CONFIG tr_send_fails now1 m_reply ch8 s_two)))) 42 8
     = Some ((new_ticket ch8 ''Billing'' now0)\<lparr> t_last_activity := now1 \<rparr>) \<and>
   snd (snd (forward_to_channel CONFIG tr_send_fails now1 m_reply ch8 s_two)) =
     [ChannelSend 8 (MessageEmbed ''alice'' ''hello'' [] []),
      ChannelSend 4242 (forward_error ''503 Service Unavailable'')] \<and>
   raises tr0 (ChannelSend 8 (MessageEmbed ''alice'' ''hello'' [] [])) = None \<and>
   lookup_ticket (active_tickets (fst (snd (forward_to_channel CONFIG tr0 now1 m_reply ch8 s_two)))) 42 8
     = Some ((new_ticket ch8 ''Billing'' now0)\<lparr> t_last_activity := now1,
          t_messages := t_messages (new_ticket ch8 ''Billing'' now0) @
            [message_entry now1 m_reply (Some 100) (Some 555)] \<rparr>)"
proof -
  have a: "lookup_ticket (active_tickets s_two) 42 (m_channel_id m_staff) = Some (new_ticket ch8 ''Billing'' now0)"
    by (simp add: m_staff_fields s_two_lookup8)
  have b: "find_ticket (ch_id ch8) (active_tickets s_two) = Some 42 \<and>
      lookup_ticket (active_tickets s_two) 42 (ch_id ch8) = Some (new_ticket ch8 ''Billing'' now0)"
    by (simp add: ch8_id s_two_find8 s_two_lookup8)
  have r1: "raises tr_relay_fails (FetchUser 42) = None"
    "raises tr_relay_fails (UserSend 42 (MessageEmbed ''bob'' ''On it'' [] []))
       = Some ''403 Forbidden (error code: 50007): Cannot send messages to this user''"
    "u_id (fetched_user tr_relay_fails 42) = 42"
    by (simp_all add: tr_relay_fails_def tr0_def)
  have r2: "raises tr_send_fails (ChannelSend 8 (MessageEmbed ''alice'' ''hello'' [] [])) = Some ''503 Service Unavailable''"
    by (simp add: tr_send_fails_def)
  have r3: "raises tr0 (ChannelSend 8 (MessageEmbed ''alice'' ''hello'' [] [])) = None"
    "sent_id tr0 (ChannelSend 8 (MessageEmbed ''alice'' ''hello'' [] [])) = 100"
    by (simp_all add: tr0_def)
  from forwarding_failure_and_log [of s_two 42 m_staff "new_ticket ch8 ''Billing'' now0" CONFIG
      tr_relay_fails now1 ch8 s_two 42 "new_ticket ch8 ''Billing'' now0" tr_send_fails m_reply]
    forwarding_failure_and_log [of s_two 42 m_staff "new_ticket ch8 ''Billing'' now0" CONFIG
      tr_relay_fails now1 ch8 s_two 42 "new_ticket ch8 ''Billing'' now0" tr0 m_reply]
    a b r1 r2 r3
  show ?thesis
    by (simp add: embed_reply embed_staff m_reply_fields m_staff_fields ch8_id)
qed

text \<open>The claim as stated fails in the direction from user to staff. The send of the
  user's message to the ticket channel is attempted and raises; the error notice goes
  to the user; and the ticket's message log holds no entry for the attempted send.\<close>

theorem forward_log_counterexample:
  "raises tr_send_fails (ChannelSend 8 (MessageEmbed ''alice'' ''hello'' [] [])) \<noteq> None \<and>
   snd (snd (forward_to_channel CONFIG tr_send_fails now1 m_reply ch8 s_two)) =
     [ChannelSend 8 (MessageEmbed ''alice'' ''hello'' [] []),
      ChannelSend 4242 (forward_error ''503 Service Unavailable'')] \<and>
   map_option t_messages (lookup_ticket (active_tickets s_two) 42 8) = Some [] \<and>
   map_option t_messages (lookup_ticket
      (active_tickets (fst (snd (forward_to_channel CONFIG tr_send_fails now1 m_reply ch8 s_two)))) 42 8)
     = Some []"
proof -
  have r: "raises tr_send_fails (ChannelSend 8 (MessageEmbed ''alice'' ''hello'' [] [])) = Some ''503 Service Unavailable''"
    by (simp add: tr_send_fails_def)
  have f: "find_ticket (ch_id ch8) (active_tickets s_two) = Some 42"
    by (simp add: ch8_id s_two_find8)
  have "snd (snd (forward_to_channel CONFIG tr_send_fails now1 m_reply ch8 s_two)) =
     [ChannelSend 8 (MessageEmbed ''alice'' ''hello'' [] []),
      ChannelSend 4242 (forward_error ''503 Service Unavailable'')]"
    by (simp add: forward_trace s_two_find8 embed_reply m_reply_fields ch8_id r del: attempt.simps)
  moreover have "map_option t_messages (lookup_ticket
      (active_tickets (fst (snd (forward_to_channel CONFIG tr_send_fails now1 m_reply ch8 s_two)))) 42 8)
     = Some []"
    by (simp add: forward_tickets [OF f] embed_reply ch8_id r lookup_modify_ticket s_two_lookup8
        new_ticket_def)
  moreover have "map_option t_messages (lookup_ticket (active_tickets s_two) 42 8) = Some []"
    by (simp add: s_two_lookup8 new_ticket_def)
  ultimately show ?thesis using r by simp
qed

section \<open>Properties of automatic closing\<close>

lemma closed_log_retire:
  "closed_log (retire_ticket u c r s) uid =
     closed_log s uid @ (if str_nat u = str_nat uid then [r] else [])"
  by (simp add: closed_log_def retire_ticket_def append_log_def)

lemma lookup_retire:
  "lookup_ticket (active_tickets (retire_ticket u c r s)) uid cid =
     (if uid = u \<and> cid = c then None else lookup_ticket (active_tickets s) uid cid)"
  by (simp add: retire_ticket_def lookup_remove_ticket)

lemma auto_close_one_lookup_other:
  "(uid, cid) \<noteq> p \<Longrightarrow>
   lookup_ticket (active_tickets (fst (auto_close_one cfg tr now p (s, d)))) uid cid
     = lookup_ticket (active_tickets s) uid cid"
  by (cases p)
    (auto simp: auto_close_one_def Let_def split_beta lookup_retire
      simp del: attempt.simps split: option.split)

lemma auto_close_one_lookup_none:
  "lookup_ticket (active_tickets s) uid cid = None \<Longrightarrow>
   lookup_ticket (active_tickets (fst (auto_close_one cfg tr now p (s, d)))) uid cid = None"
  by (cases p)
    (auto simp: auto_close_one_def Let_def split_beta lookup_retire
      simp del: attempt.simps split: option.split)

lemma auto_close_one_log:
  "\<exists>more. closed_log (fst (auto_close_one cfg tr now p (s, d))) uid = closed_log s uid @ more"
  by (cases p)
    (auto simp: auto_close_one_def Let_def split_beta closed_log_retire
      simp del: attempt.simps split: option.split)

lemma auto_close_one_trace:
  "\<exists>more. snd (auto_close_one cfg tr now p (s, d)) = d @ more"
  by (cases p)
    (auto simp: auto_close_one_def Let_def split_beta
      simp del: attempt.simps split: option.split)

lemma auto_close_one_closes:
  assumes "lookup_ticket (active_tickets s) uid cid = Some t"
    and "raises tr (FetchUser uid) = None"
    and "raises tr (ChannelSend (ch_id (t_channel t)) (AutoClosedEmbed (AUTO_CLOSE_TIME cfg))) = None"
    and "raises tr (ChannelHistory (ch_id (t_channel t))) = None"
  shows "auto_close_one cfg tr now (uid, cid) (s, d) =
    (retire_ticket uid cid (archive_record (t_channel t) t now ''auto-close'') s,
     d @ [FetchUser uid,
          ChannelSend (ch_id (t_channel t)) (AutoClosedEmbed (AUTO_CLOSE_TIME cfg)),
          ChannelHistory (ch_id (t_channel t)),
          UserSend (u_id (fetched_user tr uid))
            (AutoClosedNotice (AUTO_CLOSE_TIME cfg)
               (create_transcript cfg now (t_channel t) (fetched_user tr uid)
                  (history tr (ch_id (t_channel t))))
               (transcript_filename (t_channel t)))] @
         fst (attempt (raises tr) [SaveData, ChannelDelete (ch_id (t_channel t))]))"
proof -
  have "attempt (raises tr)
      [FetchUser uid,
       ChannelSend (ch_id (t_channel t)) (AutoClosedEmbed (AUTO_CLOSE_TIME cfg)),
       ChannelHistory (ch_id (t_channel t))] =
      ([FetchUser uid,
        ChannelSend (ch_id (t_channel t)) (AutoClosedEmbed (AUTO_CLOSE_TIME cfg)),
        ChannelHistory (ch_id (t_channel t))], None)"
    using assms(2-4) by simp
  then show ?thesis
    using assms(1) by (simp add: auto_close_one_def Let_def del: attempt.simps)
qed

lemma sweep_lookup_other:
  "(uid, cid) \<notin> set ps \<Longrightarrow>
   lookup_ticket (active_tickets (fst (foldl (\<lambda>acc p. auto_close_one cfg tr now p acc) (s, d) ps))) uid cid
     = lookup_ticket (active_tickets s) uid cid"
proof (induction ps arbitrary: s d)
  case Nil
  then show ?case by simp
next
  case (Cons p ps)
  obtain s1 d1 where one: "auto_close_one cfg tr now p (s, d) = (s1, d1)"
    by (cases "auto_close_one cfg tr now p (s, d)")
  from Cons.prems have ne: "(uid, cid) \<noteq> p" and rest: "(uid, cid) \<notin> set ps" by auto
  from auto_close_one_lookup_other [OF ne, of cfg tr now s d] one
  have "lookup_ticket (active_tickets s1) uid cid = lookup_ticket (active_tickets s) uid cid"
    by simp
  with Cons.IH [OF rest, of s1 d1] one show ?case by simp
qed

lemma sweep_lookup_none:
  "lookup_ticket (active_tickets s) uid cid = None \<Longrightarrow>
   lookup_ticket (active_tickets (fst (foldl (\<lambda>acc p. auto_close_one cfg tr now p acc) (s, d) ps))) uid cid
     = None"
proof (induction ps arbitrary: s d)
  case Nil
  then show ?case by simp
next
  case (Cons p ps)
  obtain s1 d1 where one: "auto_close_one cfg tr now p (s, d) = (s1, d1)"
    by (cases "auto_close_one cfg tr now p (s, d)")
  from auto_close_one_lookup_none [OF Cons.prems, of cfg tr now p d] one
  have "lookup_ticket (active_tickets s1) uid cid = None" by simp
  from Cons.IH [OF this, of d1] one show ?case by simp
qed

lemma sweep_log:
  "\<exists>more. closed_log (fst (foldl (\<lambda>acc p. auto_close_one cfg tr now p acc) (s, d) ps)) uid
     = closed_log s uid @ more"
proof (induction ps arbitrary: s d)
  case Nil
  then show ?case by simp
next
  case (Cons p ps)
  obtain s1 d1 where one: "auto_close_one cfg tr now p (s, d) = (s1, d1)"
    by (cases "auto_close_one cfg tr now p (s, d)")
  from auto_close_one_log [of cfg tr now p s d uid] one
  obtain m1 where "closed_log s1 uid = closed_log s uid @ m1" by auto
  moreover from Cons.IH [of s1 d1]
  obtain m2 where "closed_log (fst (foldl (\<lambda>acc p. auto_close_one cfg tr now p acc) (s1, d1) ps)) uid
     = closed_log s1 uid @ m2" by auto
  ultimately show ?case using one by simp
qed

lemma sweep_trace:
  "\<exists>more. snd (foldl (\<lambda>acc p. auto_close_one cfg tr now p acc) (s, d) ps) = d @ more"
proof (induction ps arbitrary: s d)
  case Nil
  then show ?case by simp
next
  case (Cons p ps)
  obtain s1 d1 where one: "auto_close_one cfg tr now p (s, d) = (s1, d1)"
    by (cases "auto_close_one cfg tr now p (s, d)")
  from auto_close_one_trace [of cfg tr now p s d] one
  obtain m1 where "d1 = d @ m1" by auto
  moreover from Cons.IH [of s1 d1]
  obtain m2 where "snd (foldl (\<lambda>acc p. auto_close_one cfg tr now p acc) (s1, d1) ps) = d1 @ m2"
    by auto
  ultimately show ?case using one by simp
qed

lemma wf_lookup:
  assumes "wf_tickets tks"
  shows "lookup_ticket tks uid cid = Some t \<longleftrightarrow> (\<exists>ts. (uid, ts) \<in> set tks \<and> (cid, t) \<in> set ts)"
proof
  assume "lookup_ticket tks uid cid = Some t"
  then obtain ts where "map_of tks uid = Some ts" and "map_of ts cid = Some t"
    by (auto simp: lookup_ticket_def split: option.splits)
  then show "\<exists>ts. (uid, ts) \<in> set tks \<and> (cid, t) \<in> set ts"
    by (meson map_of_SomeD)
next
  assume "\<exists>ts. (uid, ts) \<in> set tks \<and> (cid, t) \<in> set ts"
  then obtain ts where a: "(uid, ts) \<in> set tks" and b: "(cid, t) \<in> set ts" by blast
  from assms a have "distinct (map fst ts)" by (auto simp: wf_tickets_def)
  with b have "map_of ts cid = Some t" by simp
  moreover from assms a have "map_of tks uid = Some ts" by (simp add: wf_tickets_def)
  ultimately show "lookup_ticket tks uid cid = Some t" by (simp add: lookup_ticket_def)
qed

lemma to_close_set:
  "(uid, cid) \<in> set (to_close cfg now tks)
     \<longleftrightarrow> (\<exists>ts t. (uid, ts) \<in> set tks \<and> (cid, t) \<in> set ts \<and> expired cfg now t)"
  by (auto simp: to_close_def) force

lemma to_close_iff:
  assumes "wf_tickets tks"
  shows "(uid, cid) \<in> set (to_close cfg now tks)
     \<longleftrightarrow> (\<exists>t. lookup_ticket tks uid cid = Some t \<and> expired cfg now t)"
  unfolding to_close_set wf_lookup [OF assms] by blast

text \<open>
  Claim C6, as amended. Let the dictionaries be well formed and let \<open>t\<close> be the ticket of owner
  \<open>uid\<close> under channel id \<open>cid\<close>. If \<open>t\<close> is not flagged closed and has been inactive
  for at least \<^verbatim>\<open>AUTO_CLOSE_TIME\<close> hours, and the three calls that precede the store update
  for it (fetching the owner, the notice to the channel, reading the history) do not
  raise, then after one pass of the sweep the ticket is out of \<^verbatim>\<open>active_tickets\<close>, the
  owner's list in \<^verbatim>\<open>ticket_logs\<close> has grown by records among which is the summary of \<open>t\<close>
  with \<^verbatim>\<open>closed_by\<close> set to \<^verbatim>\<open>auto-close\<close>, and the transcript was generated and sent to
  the owner. If \<open>t\<close> is flagged closed or has been inactive for less than that, the pass
  leaves it in \<^verbatim>\<open>active_tickets\<close> as it was.
\<close>

theorem sweep_closes_expired:
  assumes wf: "wf_tickets (active_tickets s)"
    and present: "lookup_ticket (active_tickets s) uid cid = Some t"
  shows "(expired cfg now t \<and> raises tr (FetchUser uid) = None \<and>
          raises tr (ChannelSend (ch_id (t_channel t)) (AutoClosedEmbed (AUTO_CLOSE_TIME cfg))) = None \<and>
          raises tr (ChannelHistory (ch_id (t_channel t))) = None \<longrightarrow>
            lookup_ticket (active_tickets (fst (auto_close_pass cfg tr now s))) uid cid = None \<and>
            (\<exists>more. closed_log (fst (auto_close_pass cfg tr now s)) uid = closed_log s uid @ more \<and>
               archive_record (t_channel t) t now ''auto-close'' \<in> set more) \<and>
            UserSend (u_id (fetched_user tr uid))
              (AutoClosedNotice (AUTO_CLOSE_TIME cfg)
                 (create_transcript cfg now (t_channel t) (fetched_user tr uid)
                    (history tr (ch_id (t_channel t))))
                 (transcript_filename (t_channel t)))
              \<in> set (snd (auto_close_pass cfg tr now s))) \<and>
         (\<not> expired cfg now t \<longrightarrow>
            lookup_ticket (active_tickets (fst (auto_close_pass cfg tr now s))) uid cid = Some t)"
proof (intro conjI impI)
  assume "\<not> expired cfg now t"
  with present have "(uid, cid) \<notin> set (to_close cfg now (active_tickets s))"
    by (simp add: to_close_iff [OF wf])
  then show "lookup_ticket (active_tickets (fst (auto_close_pass cfg tr now s))) uid cid = Some t"
    using present by (simp add: auto_close_pass_def sweep_lookup_other)
next
  let ?F = "\<lambda>acc p. auto_close_one cfg tr now p acc"
  let ?r = "archive_record (t_channel t) t now ''auto-close''"
  let ?notice = "UserSend (u_id (fetched_user tr uid))
      (AutoClosedNotice (AUTO_CLOSE_TIME cfg)
         (create_transcript cfg now (t_channel t) (fetched_user tr uid)
            (history tr (ch_id (t_channel t))))
         (transcript_filename (t_channel t)))"
  assume a: "expired cfg now t \<and> raises tr (FetchUser uid) = None \<and>
          raises tr (ChannelSend (ch_id (t_channel t)) (AutoClosedEmbed (AUTO_CLOSE_TIME cfg))) = None \<and>
          raises tr (ChannelHistory (ch_id (t_channel t))) = None"
  with present have "(uid, cid) \<in> set (to_close cfg now (active_tickets s))"
    using to_close_iff [OF wf] by blast
  then obtain ps1 ps2 where ps: "to_close cfg now (active_tickets s) = ps1 @ (uid, cid) # ps2"
    and first: "(uid, cid) \<notin> set ps1"
    by (meson split_list_first)
  obtain sA dA where A: "foldl ?F (s, []) ps1 = (sA, dA)" by (cases "foldl ?F (s, []) ps1")
  from sweep_lookup_other [OF first, of cfg tr now s "[]"] A present
  have lA: "lookup_ticket (active_tickets sA) uid cid = Some t" by simp
  from sweep_log [of cfg tr now s "[]" ps1 uid] A
  obtain m1 where logA: "closed_log sA uid = closed_log s uid @ m1" by auto
  obtain sB dB where B: "auto_close_one cfg tr now (uid, cid) (sA, dA) = (sB, dB)"
    by (cases "auto_close_one cfg tr now (uid, cid) (sA, dA)")
  from auto_close_one_closes [OF lA, of tr cfg now dA] a B
  have sB: "sB = retire_ticket uid cid ?r sA" and dB: "?notice \<in> set dB"
    by auto
  have lB: "lookup_ticket (active_tickets sB) uid cid = None" by (simp add: sB lookup_retire)
  have logB: "closed_log sB uid = closed_log s uid @ m1 @ [?r]"
    by (simp add: sB closed_log_retire logA)
  have run: "auto_close_pass cfg tr now s = foldl ?F (sB, dB) ps2"
    by (simp add: auto_close_pass_def ps A B)
  from sweep_lookup_none [OF lB, of cfg tr now dB ps2]
  show "lookup_ticket (active_tickets (fst (auto_close_pass cfg tr now s))) uid cid = None"
    by (simp add: run)
  from sweep_log [of cfg tr now sB dB ps2 uid]
  obtain m2 where "closed_log (fst (foldl ?F (sB, dB) ps2)) uid = closed_log sB uid @ m2" by auto
  then have "closed_log (fst (auto_close_pass cfg tr now s)) uid = closed_log s uid @ (m1 @ [?r] @ m2)"
    by (simp add: run logB)
  then show "\<exists>more. closed_log (fst (auto_close_pass cfg tr now s)) uid = closed_log s uid @ more \<and>
      ?r \<in> set more"
    by (intro exI [of _ "m1 @ [?r] @ m2"]) simp
  from sweep_trace [of cfg tr now sB dB ps2]
  obtain m3 where "snd (foldl ?F (sB, dB) ps2) = dB @ m3" by auto
  with dB show "?notice \<in> set (snd (auto_close_pass cfg tr now s))"
    by (simp add: run)
qed

lemma expired_ticket7: "expired CONFIG now_48h (new_ticket ch7 ''Support'' now0)"
  by (simp add: expired_def hours_inactive_def date_defs new_ticket_def now_48h_def now0_def
      CONFIG_def)

lemma fresh_ticket9: "\<not> expired CONFIG now_48h (new_ticket ch9 ''Support'' now1)"
  by (simp add: expired_def hours_inactive_def date_defs new_ticket_def now_48h_def now0_def
      now1_def CONFIG_def)

lemma s_sweep_lookups:
  "lookup_ticket (active_tickets s_sweep) 42 7 = Some (new_ticket ch7 ''Support'' now0)"
  "lookup_ticket (active_tickets s_sweep) 43 9 = Some (new_ticket ch9 ''Support'' now1)"
  by (simp_all add: s_sweep_def lookup_ticket_def)

lemma s_sweep_wf: "wf_tickets (active_tickets s_sweep)"
  by (simp add: wf_tickets_def s_sweep_def)

theorem sweep_closes_expired_witness:
  "wf_tickets (active_tickets s_sweep) \<and>
   lookup_ticket (active_tickets s_sweep) 42 7 = Some (new_ticket ch7 ''Support'' now0) \<and>
   expired CONFIG now_48h (new_ticket ch7 ''Support'' now0) \<and>
   raises tr0 (FetchUser 42) = None \<and>
   raises tr0 (ChannelSend 7 (AutoClosedEmbed 48)) = None \<and>
   raises tr0 (ChannelHistory 7) = None \<and>
   lookup_ticket (active_tickets (fst (auto_close_pass CONFIG tr0 now_48h s_sweep))) 42 7 = None \<and>
   (\<exists>more. closed_log (fst (auto_close_pass CONFIG tr0 now_48h s_sweep)) 42
              = closed_log s_sweep 42 @ more \<and>
      archive_record ch7 (new_ticket ch7 ''Support'' now0) now_48h ''auto-close'' \<in> set more) \<and>
   UserSend 42 (AutoClosedNotice 48
       (create_transcript CONFIG now_48h ch7 (fetched_user tr0 42) [])
       (transcript_filename ch7))
     \<in> set (snd (auto_close_pass CONFIG tr0 now_48h s_sweep)) \<and>
   lookup_ticket (active_tickets s_sweep) 43 9 = Some (new_ticket ch9 ''Support'' now1) \<and>
   \<not> expired CONFIG now_48h (new_ticket ch9 ''Support'' now1) \<and>
   lookup_ticket (active_tickets (fst (auto_close_pass CONFIG tr0 now_48h s_sweep))) 43 9
     = Some (new_ticket ch9 ''Support'' now1)"
proof -
  have r: "raises tr0 (FetchUser 42) = None" "raises tr0 (ChannelSend 7 (AutoClosedEmbed 48)) = None"
    "raises tr0 (ChannelHistory 7) = None" "u_id (fetched_user tr0 42) = 42" "history tr0 7 = []"
    by (simp_all add: tr0_def)
  have c: "t_channel (new_ticket ch7 ''Support'' now0) = ch7" "AUTO_CLOSE_TIME CONFIG = 48"
    by (simp_all add: new_ticket_def CONFIG_def)
  from sweep_closes_expired [OF s_sweep_wf s_sweep_lookups(1), of CONFIG now_48h tr0]
    sweep_closes_expired [OF s_sweep_wf s_sweep_lookups(2), of CONFIG now_48h tr0]
    s_sweep_wf s_sweep_lookups expired_ticket7 fresh_ticket9 r
  show ?thesis by (simp add: c ch7_id)
qed

lemma s_sweep_to_close: "to_close CONFIG now_48h (active_tickets s_sweep) = [(42, 7)]"
  using expired_ticket7 fresh_ticket9 by (simp add: to_close_def s_sweep_def)

text \<open>The claim as stated fails. The first ticket is not flagged closed and has been
  inactive for 48 hours; the notice to its channel raises; the pass makes the two calls
  and leaves the store as it was, with the ticket in \<^verbatim>\<open>active_tickets\<close>.\<close>

theorem sweep_skips_on_failure_counterexample:
  "expired CONFIG now_48h (new_ticket ch7 ''Support'' now0) \<and>
   lookup_ticket (active_tickets s_sweep) 42 7 = Some (new_ticket ch7 ''Support'' now0) \<and>
   auto_close_pass CONFIG tr_channel_gone now_48h s_sweep
     = (s_sweep, [FetchUser 42, ChannelSend 7 (AutoClosedEmbed 48)])"
proof -
  have c: "t_channel (new_ticket ch7 ''Support'' now0) = ch7" "AUTO_CLOSE_TIME CONFIG = 48"
    by (simp_all add: new_ticket_def CONFIG_def)
  have "auto_close_pass CONFIG tr_channel_gone now_48h s_sweep
     = (s_sweep, [FetchUser 42, ChannelSend 7 (AutoClosedEmbed 48)])"
    by (simp add: auto_close_pass_def s_sweep_to_close auto_close_one_def s_sweep_lookups c ch7_id
        tr_channel_gone_def tr0_def)
  with expired_ticket7 s_sweep_lookups(1) show ?thesis by simp
qed

section \<open>Properties of overlapping runs\<close>

text \<open>A run that finds at its write the store its checks saw is the run defined from
  the function as a whole.\<close>

lemma create_ticket_suspended_same:
  "create_ticket_suspended cfg tr now u c msg g s s = create_ticket cfg tr now u c msg g s"
  by (simp add: create_ticket_suspended_def create_ticket_def create_ticket_checks_def
      create_ticket_write_def)

lemma send_welcome_message_suspended_same:
  "send_welcome_message_suspended cfg tr now u s s = send_welcome_message cfg tr now u s"
  by (simp add: send_welcome_message_suspended_def send_welcome_message_def)

lemma s1_count: "ticket_count s1 42 = 1"
  by (simp add: ticket_count_def s1_tickets user_tickets_def)

lemma second_creation_overlapped:
  "create_ticket_suspended CONFIG tr8 now_1s alice ''Billing'' ''Billing ticket requested'' g0 s0 s1 =
     (created_message ''Billing'',
      s1\<lparr> active_tickets :=
        [(42, [(7, new_ticket \<lparr> ch_id = 7, ch_name = channel_name_for alice ''Support'' now0 \<rparr>
                   ''Support'' now0),
               (8, new_ticket \<lparr> ch_id = 8, ch_name = channel_name_for alice ''Billing'' now_1s \<rparr>
                   ''Billing'' now_1s)])] \<rparr>,
      [CreateTextChannel (channel_name_for alice ''Billing'' now_1s),
       ChannelSend 8 (InitialEmbed ''Billing'' 42 ''Billing ticket requested''),
       PinMessage 8,
       UserSend 42 (TicketCreatedEmbed ''Billing''),
       ChannelSend 1 (LogEmbed ''Billing''
         (''Ticket created by '' @ u_name alice @ '' ('' @ str_nat 42 @ '')'')
         ''Billing ticket requested'')])"
  by (simp add: create_ticket_suspended_def create_ticket_checks_def create_ticket_write_def
      setup_calls_def opening_calls_def log_action_def CONFIG_def s0_def g0_def tr8_def tr0_def
      alice_id s1_tickets insert_ticket_def user_tickets_def)

text \<open>
  Claim C1: no user ever has more tickets in \<^verbatim>\<open>active_tickets\<close> than
  \<^verbatim>\<open>TICKET_LIMIT_PER_USER\<close>, and \<^verbatim>\<open>create_ticket\<close> rejects exactly when the user's number
  of tickets has reached the limit. The code breaks the bound when two runs of
  \<^verbatim>\<open>create_ticket\<close> for one user overlap. The limit is 1 and the store is empty. The user
  presses the Support button and then the Billing button before the channel of the
  first run exists: the checks of both runs pass on the empty store. The first run
  writes its ticket and succeeds; the second run then writes its ticket into the store
  the first one left, and succeeds as well: the user has two tickets. The same second
  run started after the first has ended is rejected.
\<close>

theorem overlapping_creations_exceed_limit:
  "TICKET_LIMIT_PER_USER CONFIG = 1 \<and>
   create_ticket_checks CONFIG alice s0 = None \<and>
   fst (create_ticket CONFIG tr0 now0 alice ''Support'' ''Support ticket requested'' g0 s0)
     = created_message ''Support'' \<and>
   fst (snd (create_ticket CONFIG tr0 now0 alice ''Support'' ''Support ticket requested'' g0 s0)) = s1 \<and>
   fst (create_ticket_suspended CONFIG tr8 now_1s alice ''Billing'' ''Billing ticket requested'' g0 s0 s1)
     = created_message ''Billing'' \<and>
   ticket_count (fst (snd (create_ticket_suspended CONFIG tr8 now_1s alice ''Billing''
       ''Billing ticket requested'' g0 s0 s1))) 42 = 2 \<and>
   fst (create_ticket CONFIG tr8 now_1s alice ''Billing'' ''Billing ticket requested'' g0 s1)
     = LIMIT_REACHED"
proof -
  have "TICKET_LIMIT_PER_USER CONFIG = 1" by (simp add: CONFIG_def)
  moreover have "create_ticket_checks CONFIG alice s0 = None"
    by (simp add: create_ticket_checks_def s0_def)
  moreover have "fst (create_ticket CONFIG tr0 now0 alice ''Support'' ''Support ticket requested'' g0 s0)
     = created_message ''Support''"
    by (simp add: create_ticket_def setup_calls_def opening_calls_def log_action_def CONFIG_def
        s0_def g0_def tr0_def alice_id)
  moreover have "fst (snd (create_ticket CONFIG tr0 now0 alice ''Support'' ''Support ticket requested'' g0 s0)) = s1"
    by (simp add: s1_def)
  moreover have "fst (create_ticket_suspended CONFIG tr8 now_1s alice ''Billing''
      ''Billing ticket requested'' g0 s0 s1) = created_message ''Billing''"
    by (simp add: second_creation_overlapped)
  moreover have "ticket_count (fst (snd (create_ticket_suspended CONFIG tr8 now_1s alice ''Billing''
       ''Billing ticket requested'' g0 s0 s1))) 42 = 2"
    by (simp add: second_creation_overlapped ticket_count_def user_tickets_def)
  moreover have "fst (create_ticket CONFIG tr8 now_1s alice ''Billing'' ''Billing ticket requested'' g0 s1)
     = LIMIT_REACHED"
    using create_ticket_at_limit [of CONFIG s1 alice tr8 now_1s "''Billing''"
        "''Billing ticket requested''" g0]
    by (simp add: CONFIG_def s1_count alice_id)
  ultimately show ?thesis by simp
qed

lemma gap_1s: "timestamp now_1s - timestamp now0 = 1"
  by (simp add: date_defs now_1s_def now0_def)

lemma s_welcomed_eq:
  "s_welcomed = s0\<lparr> user_welcome_timestamps := (user_welcome_timestamps s0)(42 \<mapsto> timestamp now0) \<rparr>"
  by (simp add: s_welcomed_def send_welcome_message_def s0_def tr0_def alice_id)

text \<open>
  Claim C7: two welcome attempts for one user less than the cooldown apart produce
  exactly one send, the second being suppressed. The code breaks this when the two
  attempts overlap. The cooldown is 300 seconds and the user has no timestamp. A first
  direct message starts a run that passes the test and awaits its send; a second
  direct message one second later starts a run whose test sees the same store, since the
  timestamp is written only after the send, and passes as well. The first run sends
  and writes its time; the second run sends too and writes its own time: two sends one
  second apart. The same second run started after the first has ended sends nothing.
\<close>

theorem overlapping_welcomes_both_send:
  "timestamp now_1s - timestamp now0 < of_int (WELCOME_MESSAGE_COOLDOWN CONFIG) \<and>
   send_welcome_message CONFIG tr0 now0 alice s0 =
     (Done, s_welcomed, [UserSend 42 WelcomeEmbed, SaveData]) \<and>
   send_welcome_message_suspended CONFIG tr0 now_1s alice s0 s_welcomed =
     (Done,
      s_welcomed\<lparr> user_welcome_timestamps :=
        (user_welcome_timestamps s_welcomed)(42 \<mapsto> timestamp now_1s) \<rparr>,
      [UserSend 42 WelcomeEmbed, SaveData]) \<and>
   send_welcome_message CONFIG tr0 now_1s alice s_welcomed = (Done, s_welcomed, [])"
proof -
  have early: "timestamp now_1s - timestamp now0 < of_int (WELCOME_MESSAGE_COOLDOWN CONFIG)"
    by (simp add: gap_1s CONFIG_def)
  have first: "send_welcome_message CONFIG tr0 now0 alice s0 =
     (Done, s_welcomed, [UserSend 42 WelcomeEmbed, SaveData])"
    by (simp add: s_welcomed_eq send_welcome_message_def s0_def tr0_def alice_id ending_def)
  have second: "send_welcome_message_suspended CONFIG tr0 now_1s alice s0 s_welcomed =
     (Done,
      s_welcomed\<lparr> user_welcome_timestamps :=
        (user_welcome_timestamps s_welcomed)(42 \<mapsto> timestamp now_1s) \<rparr>,
      [UserSend 42 WelcomeEmbed, SaveData])"
    by (simp add: send_welcome_message_suspended_def s0_def tr0_def alice_id ending_def)
  have ts: "user_welcome_timestamps s_welcomed (u_id alice) = Some (timestamp now0)"
    by (simp add: s_welcomed_eq alice_id)
  have later: "send_welcome_message CONFIG tr0 now_1s alice s_welcomed = (Done, s_welcomed, [])"
    using early by (rule welcome_suppressed [OF ts])
  from early first second later show ?thesis by simp
qed

end
